theory Spec2Isabelle
  imports Main
begin

section \<open>Python values\<close>

text \<open>
  The handlers of \<^verbatim>\<open>src/instagram_mcp_server.py\<close> receive their arguments as a
  Python dictionary decoded from JSON (\<^verbatim>\<open>Dict[str, Any]\<close>).  A value is \<^verbatim>\<open>None\<close>, a
  boolean, an integer, a floating-point number, a string, a list or a dictionary with
  string keys.  No handler computes with a floating-point number, so \<open>PFloat\<close> keeps
  of it the text the JSON encoder writes for it and its truth value.  \<open>PObj\<close> stands for
  any other object (a \<^verbatim>\<open>datetime\<close> inside a model, say), known by the name of its class,
  by what \<^verbatim>\<open>str()\<close> gives for it and by its truth value.  A character is a code point
  below 256.
\<close>

datatype pyval =
    PNone
  | PBool bool
  | PInt int
  | PFloat string bool
  | PStr string
  | PList "pyval list"
  | PDict "(string \<times> pyval) list"
  | PObj string string bool

text \<open>\<^verbatim>\<open>bool(v)\<close>: the truth value Python's \<^verbatim>\<open>if v:\<close> tests.\<close>

fun py_bool :: "pyval \<Rightarrow> bool" where
  "py_bool PNone = False"
| "py_bool (PBool b) = b"
| "py_bool (PInt i) = (i \<noteq> 0)"
| "py_bool (PFloat written truthy) = truthy"
| "py_bool (PStr s) = (s \<noteq> [])"
| "py_bool (PList xs) = (xs \<noteq> [])"
| "py_bool (PDict kvs) = (kvs \<noteq> [])"
| "py_bool (PObj cls txt truthy) = truthy"

text \<open>A dictionary of arguments, \<^verbatim>\<open>arguments.get(k)\<close> and \<^verbatim>\<open>arguments.get(k, d)\<close>.\<close>

type_synonym arguments = "string \<rightharpoonup> pyval"

definition py_get :: "arguments \<Rightarrow> string \<Rightarrow> pyval" where
  "py_get arguments k = (case arguments k of None \<Rightarrow> PNone | Some v \<Rightarrow> v)"

definition py_get_default :: "arguments \<Rightarrow> string \<Rightarrow> pyval \<Rightarrow> pyval" where
  "py_get_default arguments k d = (case arguments k of None \<Rightarrow> d | Some v \<Rightarrow> v)"

section \<open>Exceptions\<close>

text \<open>
  The handlers tell two classes of exception apart: \<^verbatim>\<open>InstagramAPIError\<close>, which carries
  \<^verbatim>\<open>message\<close>, \<^verbatim>\<open>error_code\<close> and \<^verbatim>\<open>error_subcode\<close>, and every other subclass of
  \<^verbatim>\<open>Exception\<close>, of which they use \<^verbatim>\<open>str(e)\<close> only.  \<open>PyException cls txt\<close> is an
  exception of class \<open>cls\<close> whose \<^verbatim>\<open>str(e)\<close> is \<open>txt\<close>.  Signals outside \<^verbatim>\<open>Exception\<close> (task
  cancellation, keyboard interrupt) are not failures of a call and are not modelled.
\<close>

datatype exn =
    InstagramAPIError string string pyval pyval
  | PyException string string

text \<open>
  \<open>InstagramAPIError txt message code subcode\<close>: \<open>txt\<close> is \<^verbatim>\<open>str(e)\<close>, the other three
  are the attributes \<^verbatim>\<open>e.message\<close>, \<^verbatim>\<open>e.error_code\<close> and \<^verbatim>\<open>e.error_subcode\<close>.
\<close>

fun exn_str :: "exn \<Rightarrow> string" where
  "exn_str (InstagramAPIError txt message code subcode) = txt"
| "exn_str (PyException cls txt) = txt"

section \<open>Serialisation: \<^verbatim>\<open>json.dumps(v, indent=2)\<close>\<close>

definition digit_char :: "nat \<Rightarrow> char" where
  "digit_char n = char_of (48 + n)"

fun dec_nat :: "nat \<Rightarrow> string" where
  "dec_nat n = (if n < 10 then [digit_char n] else dec_nat (n div 10) @ [digit_char (n mod 10)])"

declare dec_nat.simps [simp del]

text \<open>\<^verbatim>\<open>str(i)\<close> for an integer.\<close>

definition py_str_int :: "int \<Rightarrow> string" where
  "py_str_int i = (if i < 0 then CHR ''-'' # dec_nat (nat (- i)) else dec_nat (nat i))"

definition hex_char :: "nat \<Rightarrow> char" where
  "hex_char n = (if n < 10 then char_of (48 + n) else char_of (87 + n))"

text \<open>
  The encoder's string escapes with \<^verbatim>\<open>ensure_ascii=True\<close> (the default): the quote
  and the backslash, the short escapes of five control characters, and
  \<^verbatim>\<open>\u00XX\<close> for everything else outside the range from space to tilde.
\<close>

definition json_escape_char :: "char \<Rightarrow> string" where
  "json_escape_char c =
     (let n = (of_char c :: nat) in
      if n = 0x22 then [CHR 0x5C, CHR 0x22]
      else if n = 0x5C then [CHR 0x5C, CHR 0x5C]
      else if n = 0x0A then [CHR 0x5C, CHR ''n'']
      else if n = 0x0D then [CHR 0x5C, CHR ''r'']
      else if n = 0x09 then [CHR 0x5C, CHR ''t'']
      else if n = 0x08 then [CHR 0x5C, CHR ''b'']
      else if n = 0x0C then [CHR 0x5C, CHR ''f'']
      else if 0x20 \<le> n \<and> n \<le> 0x7E then [c]
      else [CHR 0x5C, CHR ''u'', CHR ''0'', CHR ''0'', hex_char (n div 16), hex_char (n mod 16)])"

definition json_string :: "string \<Rightarrow> string" where
  "json_string s = CHR 0x22 # concat (map json_escape_char s) @ [CHR 0x22]"

definition indent_of :: "nat \<Rightarrow> string" where
  "indent_of lvl = replicate (2 * lvl) CHR '' ''"

text \<open>Items joined by a comma and a newline, each at its indentation.\<close>

fun join_items :: "string \<Rightarrow> string list \<Rightarrow> string" where
  "join_items ind [] = []"
| "join_items ind [x] = ind @ x"
| "join_items ind (x # y # ys) = ind @ x @ [CHR '','', CHR 0x0A] @ join_items ind (y # ys)"

fun json_render :: "nat \<Rightarrow> pyval \<Rightarrow> string" where
  "json_render lvl PNone = ''null''"
| "json_render lvl (PBool b) = (if b then ''true'' else ''false'')"
| "json_render lvl (PInt i) = py_str_int i"
| "json_render lvl (PFloat written truthy) = written"
| "json_render lvl (PStr s) = json_string s"
| "json_render lvl (PList xs) =
     (if xs = [] then ''[]''
      else [CHR ''['', CHR 0x0A]
           @ join_items (indent_of (Suc lvl)) (map (json_render (Suc lvl)) xs)
           @ [CHR 0x0A] @ indent_of lvl @ '']'')"
| "json_render lvl (PDict kvs) =
     (if kvs = [] then ''{}''
      else [CHR ''{'', CHR 0x0A]
           @ join_items (indent_of (Suc lvl))
               (map (\<lambda>kv. json_string (fst kv) @ '': '' @ json_render (Suc lvl) (snd kv)) kvs)
           @ [CHR 0x0A] @ indent_of lvl @ ''}'')"
| "json_render lvl (PObj cls txt truthy) = json_string txt"

text \<open>
  Without \<^verbatim>\<open>default=\<close> the encoder raises \<^verbatim>\<open>TypeError\<close> at the first object it cannot
  serialise; with \<^verbatim>\<open>default=str\<close> it writes \<^verbatim>\<open>str(o)\<close> in its place.
\<close>

fun unserializable :: "pyval \<Rightarrow> string list" where
  "unserializable (PList xs) = concat (map unserializable xs)"
| "unserializable (PDict kvs) = concat (map (\<lambda>kv. unserializable (snd kv)) kvs)"
| "unserializable (PObj cls txt truthy) = [cls]"
| "unserializable v = []"

definition json_dumps :: "pyval \<Rightarrow> exn + string" where
  "json_dumps v =
     (case unserializable v of
        [] \<Rightarrow> Inr (json_render 0 v)
      | cls # _ \<Rightarrow>
          Inl (PyException ''TypeError'' (''Object of type '' @ cls @ '' is not JSON serializable'')))"

definition json_dumps_default_str :: "pyval \<Rightarrow> string" where
  "json_dumps_default_str v = json_render 0 v"

section \<open>Domain models and the API client\<close>

text \<open>
  The pydantic models and the client live in \<^verbatim>\<open>models/instagram_models.py\<close> and
  \<^verbatim>\<open>instagram_client.py\<close>, outside the file verified here.  A model object is
  represented by the items of the dictionary its \<^verbatim>\<open>.dict()\<close> returns.  Of a media post the prompt
  composer also reads four attributes.
\<close>

type_synonym model = "(string \<times> pyval) list"

record post =
  post_id :: string
  caption :: "string option"
  like_count :: "int option"
  comments_count :: "int option"
  post_dict :: model

text \<open>
  Modelled from the spec: \<^verbatim>\<open>InsightPeriod\<close>, the closed enumeration of the periods
  \<^verbatim>\<open>day\<close>, \<^verbatim>\<open>week\<close> and \<^verbatim>\<open>days_28\<close>.
\<close>

datatype InsightPeriod = Day | Week | Days28

fun period_value :: "InsightPeriod \<Rightarrow> string" where
  "period_value Day = ''day''"
| "period_value Week = ''week''"
| "period_value Days28 = ''days_28''"

text \<open>
  Modelled from the spec: \<^verbatim>\<open>InsightMetric\<close>, a closed enumeration of metric names.  The
  spec lists its members with an ellipsis, so the list of member values is a parameter
  of the environment; \<open>Metric s\<close> is the member whose value is \<open>s\<close>.
\<close>

datatype InsightMetric = Metric string

text \<open>What \<^verbatim>\<open>get_media_insights\<close> receives as \<^verbatim>\<open>metrics\<close>: the raw (falsy) argument, or the coerced list.\<close>

datatype metrics_arg = Raw pyval | Members "InsightMetric list"

text \<open>
  The client's operations, as the handlers call them.  An optional parameter is
  \<open>None\<close> where the call site does not pass it.  Each operation returns its result or
  raises.
\<close>

record client =
  get_profile_info :: "pyval option \<Rightarrow> exn + model"
  get_media_posts :: "pyval option \<Rightarrow> pyval option \<Rightarrow> pyval option \<Rightarrow> exn + post list"
  get_media_insights :: "pyval \<Rightarrow> metrics_arg option \<Rightarrow> exn + model list"
  publish_media :: "model \<Rightarrow> exn + model"
  get_account_pages :: "exn + model list"
  get_account_insights ::
    "pyval option \<Rightarrow> pyval option \<Rightarrow> InsightPeriod option \<Rightarrow> exn + model list"
  validate_access_token :: "exn + pyval"

text \<open>What a handler did, in order: the requests it built and the operations it invoked.\<close>

datatype api_call =
    GetProfileInfo "pyval option"
  | GetMediaPosts "pyval option" "pyval option" "pyval option"
  | GetMediaInsights pyval "metrics_arg option"
  | PublishMedia model
  | GetAccountPages
  | GetAccountInsights "pyval option" "pyval option" "InsightPeriod option"
  | ValidateAccessToken

datatype event = RequestBuilt arguments | ApiCall api_call

section \<open>Timestamps\<close>

record datetime =
  year :: nat
  month :: nat
  day :: nat
  hour :: nat
  minute :: nat
  second :: nat
  microsecond :: nat

definition pad2 :: "nat \<Rightarrow> string" where
  "pad2 n = [digit_char (n div 10), digit_char (n mod 10)]"

definition pad4 :: "nat \<Rightarrow> string" where
  "pad4 n = pad2 (n div 100) @ pad2 (n mod 100)"

definition pad6 :: "nat \<Rightarrow> string" where
  "pad6 n = pad2 (n div 10000) @ pad4 (n mod 10000)"

text \<open>\<^verbatim>\<open>datetime.isoformat()\<close> of a naive datetime: the fraction is left out when it is zero.\<close>

definition isoformat :: "datetime \<Rightarrow> string" where
  "isoformat d =
     pad4 (year d) @ ''-'' @ pad2 (month d) @ ''-'' @ pad2 (day d) @ ''T''
     @ pad2 (hour d) @ '':'' @ pad2 (minute d) @ '':'' @ pad2 (second d)
     @ (if microsecond d = 0 then [] else ''.'' @ pad6 (microsecond d))"

section \<open>The environment of a call\<close>

text \<open>
  What the handlers take from outside the file: the outcome of constructing a client
  (\<^verbatim>\<open>InstagramClient()\<close>), the member values of \<^verbatim>\<open>InsightMetric\<close>, the constructor
  \<^verbatim>\<open>PublishMediaRequest(**arguments)\<close> (it returns the request or raises a validation
  error), the wall clock, Python's \<^verbatim>\<open>repr\<close>, which builds the text of built-in errors,
  the interpreter's limit on the digits of an integer literal
  (\<^verbatim>\<open>sys.get_int_max_str_digits()\<close>, 0 when there is none) and the text of the
  \<^verbatim>\<open>ValueError\<close> that \<^verbatim>\<open>int\<close> raises for a string.  \<open>clock e i\<close> is what \<^verbatim>\<open>datetime.utcnow()\<close> would return \<open>i\<close> ticks after the
  call started, and the envelope is stamped \<open>elapsed e\<close> ticks into the call: a handler
  reads the clock once, when it builds a stamped envelope.
\<close>

record env =
  InstagramClient :: "exn + client"
  InsightMetric_values :: "string list"
  PublishMediaRequest :: "arguments \<Rightarrow> exn + model"
  clock :: "nat \<Rightarrow> datetime"
  elapsed :: nat
  py_repr :: "pyval \<Rightarrow> string"
  int_max_str_digits :: nat
  int_error_text :: "string \<Rightarrow> string"

definition call_start :: "env \<Rightarrow> datetime" where
  "call_start e = clock e 0"

definition utcnow :: "env \<Rightarrow> datetime" where
  "utcnow e = clock e (elapsed e)"

text \<open>\<^verbatim>\<open>InsightMetric(m)\<close> and \<^verbatim>\<open>InsightPeriod(v)\<close>: lookup by value, \<^verbatim>\<open>ValueError\<close> otherwise.\<close>

definition coerce_metric :: "env \<Rightarrow> pyval \<Rightarrow> exn + InsightMetric" where
  "coerce_metric e m =
     (case m of
        PStr s \<Rightarrow>
          if s \<in> set (InsightMetric_values e) then Inr (Metric s)
          else Inl (PyException ''ValueError'' (py_repr e m @ '' is not a valid InsightMetric''))
      | _ \<Rightarrow> Inl (PyException ''ValueError'' (py_repr e m @ '' is not a valid InsightMetric'')))"

definition coerce_period :: "env \<Rightarrow> pyval \<Rightarrow> exn + InsightPeriod" where
  "coerce_period e v =
     (if v = PStr ''day'' then Inr Day
      else if v = PStr ''week'' then Inr Week
      else if v = PStr ''days_28'' then Inr Days28
      else Inl (PyException ''ValueError'' (py_repr e v @ '' is not a valid InsightPeriod'')))"

text \<open>The list comprehension \<^verbatim>\<open>[InsightMetric(m) for m in metrics]\<close> stops at the first error.\<close>

fun coerce_metrics :: "env \<Rightarrow> pyval list \<Rightarrow> exn + InsightMetric list" where
  "coerce_metrics e [] = Inr []"
| "coerce_metrics e (m # ms) =
     (case coerce_metric e m of
        Inl x \<Rightarrow> Inl x
      | Inr v \<Rightarrow> (case coerce_metrics e ms of Inl x \<Rightarrow> Inl x | Inr vs \<Rightarrow> Inr (v # vs)))"

text \<open>
  \<^verbatim>\<open>for m in metrics\<close>: a list gives its elements, a string its characters, a
  dictionary its keys; anything else is not iterable.
\<close>

fun type_name :: "pyval \<Rightarrow> string" where
  "type_name PNone = ''NoneType''"
| "type_name (PBool b) = ''bool''"
| "type_name (PInt i) = ''int''"
| "type_name (PFloat written truthy) = ''float''"
| "type_name (PStr s) = ''str''"
| "type_name (PList xs) = ''list''"
| "type_name (PDict kvs) = ''dict''"
| "type_name (PObj cls txt truthy) = cls"

definition py_iter :: "pyval \<Rightarrow> exn + pyval list" where
  "py_iter v =
     (case v of
        PList xs \<Rightarrow> Inr xs
      | PStr s \<Rightarrow> Inr (map (\<lambda>c. PStr [c]) s)
      | PDict kvs \<Rightarrow> Inr (map (\<lambda>kv. PStr (fst kv)) kvs)
      | _ \<Rightarrow> Inl (PyException ''TypeError''
                 ([CHR 0x27] @ type_name v @ [CHR 0x27] @ '' object is not iterable'')))"

section \<open>The result envelope\<close>

text \<open>
  Modelled from the spec: \<^verbatim>\<open>MCPToolResult\<close>, the result envelope with the fields
  \<^verbatim>\<open>success\<close>, \<^verbatim>\<open>data\<close>, \<^verbatim>\<open>error\<close> and \<^verbatim>\<open>metadata\<close>.  A field the constructor call
  does not pass is \<open>None\<close> here and \<^verbatim>\<open>null\<close> in the serialised text.
\<close>

record MCPToolResult =
  success :: bool
  data :: "pyval option"
  error :: "string option"
  metadata :: "(string \<times> pyval) list option"

definition result_dict :: "MCPToolResult \<Rightarrow> pyval" where
  "result_dict r =
     PDict [(''success'', PBool (success r)),
            (''data'', case data r of None \<Rightarrow> PNone | Some d \<Rightarrow> d),
            (''error'', case error r of None \<Rightarrow> PNone | Some m \<Rightarrow> PStr m),
            (''metadata'', case metadata r of None \<Rightarrow> PNone | Some kvs \<Rightarrow> PDict kvs)]"

datatype text_content = TextContent string string

text \<open>\<^verbatim>\<open>_wrap\<close>: the envelope as the single text block of the reply.\<close>

definition wrap :: "MCPToolResult \<Rightarrow> text_content list" where
  "wrap result = [TextContent ''text'' (json_dumps_default_str (result_dict result))]"

text \<open>The metadata of the paths that stamp the envelope: the tool's name and the time.\<close>

definition stamp :: "env \<Rightarrow> string \<Rightarrow> (string \<times> pyval) list" where
  "stamp e name = [(''tool'', PStr name), (''timestamp'', PStr (isoformat (utcnow e)))]"

section \<open>The dispatcher: \<^verbatim>\<open>handle_call_tool\<close>\<close>

text \<open>
  The process-wide handle \<^verbatim>\<open>instagram_client\<close> is \<open>None\<close> until a client has been
  built.  Each handler starts with
  \<^verbatim>\<open>if not instagram_client: instagram_client = InstagramClient()\<close>,
  before its \<^verbatim>\<open>try\<close>: a failing construction leaves the handler as an exception.
\<close>

definition get_client :: "env \<Rightarrow> client option \<Rightarrow> exn + client" where
  "get_client e instagram_client =
     (case instagram_client of Some c \<Rightarrow> Inr c | None \<Rightarrow> InstagramClient e)"

text \<open>
  The body of the \<^verbatim>\<open>try\<close> statement (lines 171 to 249): the events in order, and the
  envelope returned or the exception raised.
\<close>

definition call_tool_body ::
  "env \<Rightarrow> client \<Rightarrow> string \<Rightarrow> arguments \<Rightarrow> event list \<times> (exn + MCPToolResult)" where
  "call_tool_body e c name arguments =
    (if name = ''get_profile_info'' then
       (let account_id = py_get arguments ''account_id'' in
        ([ApiCall (GetProfileInfo (Some account_id))],
         case get_profile_info c (Some account_id) of
           Inl x \<Rightarrow> Inl x
         | Inr profile \<Rightarrow>
             Inr \<lparr>success = True, data = Some (PDict profile), error = None,
                  metadata = Some (stamp e name)\<rparr>))
     else if name = ''get_media_posts'' then
       (let account_id = py_get arguments ''account_id'';
            limit = py_get_default arguments ''limit'' (PInt 25);
            after = py_get arguments ''after''
        in ([ApiCall (GetMediaPosts (Some account_id) (Some limit) (Some after))],
            case get_media_posts c (Some account_id) (Some limit) (Some after) of
              Inl x \<Rightarrow> Inl x
            | Inr posts \<Rightarrow>
                Inr \<lparr>success = True,
                     data = Some (PDict [(''posts'', PList (map (\<lambda>p. PDict (post_dict p)) posts)),
                                         (''count'', PInt (int (length posts)))]),
                     error = None, metadata = Some (stamp e name)\<rparr>))
     else if name = ''get_media_insights'' then
       (case arguments ''media_id'' of
          None \<Rightarrow>
            ([], Inl (PyException ''KeyError'' ([CHR 0x27] @ ''media_id'' @ [CHR 0x27])))
        | Some media_id \<Rightarrow>
            (let metrics = py_get arguments ''metrics'' in
             case (if py_bool metrics
                   then (case py_iter metrics of
                           Inl x \<Rightarrow> Inl x
                         | Inr ms \<Rightarrow>
                             (case coerce_metrics e ms of
                                Inl x \<Rightarrow> Inl x
                              | Inr vs \<Rightarrow> Inr (Members vs)))
                   else Inr (Raw metrics)) of
               Inl x \<Rightarrow> ([], Inl x)
             | Inr metrics' \<Rightarrow>
                 ([ApiCall (GetMediaInsights media_id (Some metrics'))],
                  case get_media_insights c media_id (Some metrics') of
                    Inl x \<Rightarrow> Inl x
                  | Inr insights \<Rightarrow>
                      Inr \<lparr>success = True,
                           data = Some (PDict [(''media_id'', media_id),
                                               (''insights'', PList (map PDict insights))]),
                           error = None, metadata = Some (stamp e name)\<rparr>)))
     else if name = ''publish_media'' then
       (let image_url = py_get arguments ''image_url'';
            video_url = py_get arguments ''video_url''
        in if py_bool image_url = py_bool video_url then
             ([], Inr \<lparr>success = False, data = None,
                       error = Some ''Exactly one of image_url or video_url is required.'',
                       metadata = Some (stamp e name)\<rparr>)
           else
             (case PublishMediaRequest e arguments of
                Inl x \<Rightarrow> ([RequestBuilt arguments], Inl x)
              | Inr request \<Rightarrow>
                  ([RequestBuilt arguments, ApiCall (PublishMedia request)],
                   case publish_media c request of
                     Inl x \<Rightarrow> Inl x
                   | Inr response \<Rightarrow>
                       Inr \<lparr>success = True, data = Some (PDict response), error = None,
                            metadata = Some (stamp e name)\<rparr>)))
     else if name = ''get_account_pages'' then
       ([ApiCall GetAccountPages],
        case get_account_pages c of
          Inl x \<Rightarrow> Inl x
        | Inr pages \<Rightarrow>
            Inr \<lparr>success = True,
                 data = Some (PDict [(''pages'', PList (map PDict pages)),
                                     (''count'', PInt (int (length pages)))]),
                 error = None, metadata = Some (stamp e name)\<rparr>)
     else if name = ''get_account_insights'' then
       (let account_id = py_get arguments ''account_id'';
            metrics = py_get arguments ''metrics''
        in case coerce_period e (py_get_default arguments ''period'' (PStr ''day'')) of
             Inl x \<Rightarrow> ([], Inl x)
           | Inr period \<Rightarrow>
               ([ApiCall (GetAccountInsights (Some account_id) (Some metrics) (Some period))],
                case get_account_insights c (Some account_id) (Some metrics) (Some period) of
                  Inl x \<Rightarrow> Inl x
                | Inr insights \<Rightarrow>
                    Inr \<lparr>success = True,
                         data = Some (PDict [(''insights'', PList (map PDict insights)),
                                             (''period'', PStr (period_value period))]),
                         error = None, metadata = Some (stamp e name)\<rparr>))
     else if name = ''validate_access_token'' then
       ([ApiCall ValidateAccessToken],
        case validate_access_token c of
          Inl x \<Rightarrow> Inl x
        | Inr is_valid \<Rightarrow>
            Inr \<lparr>success = True, data = Some (PDict [(''valid'', is_valid)]), error = None,
                 metadata = Some (stamp e name)\<rparr>)
     else
       ([], Inr \<lparr>success = False, data = None, error = Some (''Unknown tool: '' @ name),
                 metadata = None\<rparr>))"

text \<open>
  The two \<^verbatim>\<open>except\<close> clauses (lines 251 to 260).  Their calls of the logger change
  nothing the caller sees and are left out.
\<close>

fun on_exception :: "exn \<Rightarrow> MCPToolResult" where
  "on_exception (InstagramAPIError txt message code subcode) =
     \<lparr>success = False, data = None, error = Some (''Instagram API error: '' @ message),
      metadata = Some [(''error_code'', code), (''error_subcode'', subcode)]\<rparr>"
| "on_exception (PyException cls txt) =
     \<lparr>success = False, data = None, error = Some (''Tool execution failed: '' @ txt),
      metadata = None\<rparr>"

text \<open>The envelope a call ends with, once the handle is there.\<close>

definition call_tool_result :: "env \<Rightarrow> client \<Rightarrow> string \<Rightarrow> arguments \<Rightarrow> MCPToolResult" where
  "call_tool_result e c name arguments =
     (case snd (call_tool_body e c name arguments) of
        Inl x \<Rightarrow> on_exception x
      | Inr result \<Rightarrow> result)"

text \<open>
  The handler: the handle after the call, the events of the call, and the reply or the
  exception that reaches the caller.
\<close>

definition handle_call_tool ::
  "env \<Rightarrow> client option \<Rightarrow> string \<Rightarrow> arguments
     \<Rightarrow> client option \<times> event list \<times> (exn + text_content list)" where
  "handle_call_tool e instagram_client name arguments =
     (case get_client e instagram_client of
        Inl x \<Rightarrow> (instagram_client, [], Inl x)
      | Inr c \<Rightarrow>
          (Some c, fst (call_tool_body e c name arguments),
           Inr (wrap (call_tool_result e c name arguments))))"

text \<open>The names \<^verbatim>\<open>handle_list_tools\<close> advertises, in its order.\<close>

definition tool_names :: "string list" where
  "tool_names =
     [''get_profile_info'', ''get_media_posts'', ''get_media_insights'', ''publish_media'',
      ''get_account_pages'', ''get_account_insights'', ''validate_access_token'']"

section \<open>The resource reader: \<^verbatim>\<open>handle_read_resource\<close>\<close>

text \<open>
  The body of the \<^verbatim>\<open>try\<close> statement (lines 298 to 311).  Here \<^verbatim>\<open>json.dumps\<close> is called
  without \<^verbatim>\<open>default\<close>.
\<close>

definition read_resource_body :: "client \<Rightarrow> string \<Rightarrow> event list \<times> (exn + string)" where
  "read_resource_body c uri =
    (if uri = ''instagram://profile'' then
       ([ApiCall (GetProfileInfo None)],
        case get_profile_info c None of
          Inl x \<Rightarrow> Inl x
        | Inr profile \<Rightarrow> json_dumps (PDict profile))
     else if uri = ''instagram://media/recent'' then
       ([ApiCall (GetMediaPosts None (Some (PInt 10)) None)],
        case get_media_posts c None (Some (PInt 10)) None of
          Inl x \<Rightarrow> Inl x
        | Inr posts \<Rightarrow> json_dumps (PList (map (\<lambda>p. PDict (post_dict p)) posts)))
     else if uri = ''instagram://insights/account'' then
       ([ApiCall (GetAccountInsights None None None)],
        case get_account_insights c None None None of
          Inl x \<Rightarrow> Inl x
        | Inr insights \<Rightarrow> json_dumps (PList (map PDict insights)))
     else if uri = ''instagram://pages'' then
       ([ApiCall GetAccountPages],
        case get_account_pages c of
          Inl x \<Rightarrow> Inl x
        | Inr pages \<Rightarrow> json_dumps (PList (map PDict pages)))
     else ([], Inl (PyException ''ValueError'' (''Unknown resource URI: '' @ uri))))"

text \<open>The \<^verbatim>\<open>except\<close> clause (lines 312 to 314) returns \<^verbatim>\<open>json.dumps({"error": str(e)}, indent=2)\<close>.\<close>

definition error_text :: "exn \<Rightarrow> exn + string" where
  "error_text x = json_dumps (PDict [(''error'', PStr (exn_str x))])"

definition handle_read_resource ::
  "env \<Rightarrow> client option \<Rightarrow> string \<Rightarrow> client option \<times> event list \<times> (exn + string)" where
  "handle_read_resource e instagram_client uri =
     (case get_client e instagram_client of
        Inl x \<Rightarrow> (instagram_client, [], Inl x)
      | Inr c \<Rightarrow>
          (Some c, fst (read_resource_body c uri),
           case snd (read_resource_body c uri) of
             Inl x \<Rightarrow> error_text x
           | Inr txt \<Rightarrow> Inr txt))"

section \<open>The prompt composer: \<^verbatim>\<open>handle_get_prompt\<close>\<close>

text \<open>\<^verbatim>\<open>str.isspace\<close> on the code points below 256, and \<^verbatim>\<open>str.split()\<close> with no separator.\<close>

definition py_isspace :: "char \<Rightarrow> bool" where
  "py_isspace c =
     (let n = (of_char c :: nat)
      in (9 \<le> n \<and> n \<le> 13) \<or> (28 \<le> n \<and> n \<le> 32) \<or> n = 133 \<or> n = 160)"

fun split_from :: "string \<Rightarrow> string \<Rightarrow> string list" where
  "split_from w [] = (if w = [] then [] else [w])"
| "split_from w (c # cs) =
     (if py_isspace c then (if w = [] then split_from [] cs else w # split_from [] cs)
      else split_from (w @ [c]) cs)"

definition py_split :: "string \<Rightarrow> string list" where
  "py_split s = split_from [] s"

definition startswith_hash :: "string \<Rightarrow> bool" where
  "startswith_hash w = (case w of [] \<Rightarrow> False | c # _ \<Rightarrow> c = CHR ''#'')"

text \<open>
  \<^verbatim>\<open>int(s)\<close> for a string, as the interpreter reads it.  A string with a character
  beyond ASCII is first rewritten: a whitespace character beyond ASCII (of the code
  points below 256, \<^verbatim>\<open>U+0085\<close> and \<^verbatim>\<open>U+00A0\<close>) becomes a space, and any other one, not
  being a decimal digit, makes the literal invalid.  The literal is then read as C reads
  it: the whitespace of \<^verbatim>\<open>isspace\<close> (tab to carriage return, and the space) may surround
  it, a sign may lead, a single underscore may stand between two digits, and nothing
  else may occur.  A literal of more digits than the interpreter's limit is refused
  (the limit is compared only past 640 digits).  Every refusal is a \<^verbatim>\<open>ValueError\<close>.
\<close>

definition is_digit :: "char \<Rightarrow> bool" where
  "is_digit c = (48 \<le> (of_char c :: nat) \<and> (of_char c :: nat) \<le> 57)"

definition digit_val :: "char \<Rightarrow> nat" where
  "digit_val c = of_char c - 48"

definition to_ascii :: "char \<Rightarrow> char" where
  "to_ascii c =
     (let n = (of_char c :: nat)
      in if n < 127 then c else if n = 133 \<or> n = 160 then CHR '' '' else CHR ''?'')"

definition c_isspace :: "char \<Rightarrow> bool" where
  "c_isspace c = (let n = (of_char c :: nat) in (9 \<le> n \<and> n \<le> 13) \<or> n = 32)"

fun digits_value :: "nat \<Rightarrow> bool \<Rightarrow> string \<Rightarrow> nat option" where
  "digits_value acc after_digit [] = (if after_digit then Some acc else None)"
| "digits_value acc after_digit (c # cs) =
     (if is_digit c then digits_value (10 * acc + digit_val c) True cs
      else if c = CHR ''_'' \<and> after_digit then digits_value acc False cs
      else None)"

definition c_strip :: "string \<Rightarrow> string" where
  "c_strip s = rev (dropWhile c_isspace (rev (dropWhile c_isspace s)))"

definition over_digit_limit :: "env \<Rightarrow> nat \<Rightarrow> bool" where
  "over_digit_limit e digits =
     (640 < digits \<and> 0 < int_max_str_digits e \<and> int_max_str_digits e < digits)"

definition py_int :: "env \<Rightarrow> string \<Rightarrow> exn + int" where
  "py_int e s =
     (let t = c_strip (map to_ascii s);
          neg = (case t of [] \<Rightarrow> False | c # _ \<Rightarrow> c = CHR ''-'');
          body = (case t of [] \<Rightarrow> [] | c # cs \<Rightarrow> if c = CHR ''-'' \<or> c = CHR ''+'' then cs else t)
      in case digits_value 0 False body of
           None \<Rightarrow> Inl (PyException ''ValueError'' (int_error_text e s))
         | Some n \<Rightarrow>
             if over_digit_limit e (length (filter is_digit body))
             then Inl (PyException ''ValueError'' (int_error_text e s))
             else Inr (if neg then - int n else int n))"

text \<open>A triple-quoted template: every line of it ends with a newline.\<close>

definition py_lines :: "string list \<Rightarrow> string" where
  "py_lines ls = concat (map (\<lambda>l. l @ [CHR 0x0A]) ls)"

definition opt_int :: "int option \<Rightarrow> pyval" where
  "opt_int v = (case v of None \<Rightarrow> PNone | Some i \<Rightarrow> PInt i)"

text \<open>
  The loop of \<^verbatim>\<open>hashtag_analysis\<close> (lines 396 to 402): one entry for each post whose
  caption is truthy, in the order of the posts.
\<close>

definition hashtag_entry :: "post \<Rightarrow> string \<Rightarrow> pyval" where
  "hashtag_entry p cap =
     PDict [(''post_id'', PStr (post_id p)),
            (''hashtags'', PList (map PStr (filter startswith_hash (py_split cap)))),
            (''likes'', opt_int (like_count p)),
            (''comments'', opt_int (comments_count p))]"

fun hashtags_data :: "post list \<Rightarrow> pyval list" where
  "hashtags_data [] = []"
| "hashtags_data (p # ps) =
     (case caption p of
        None \<Rightarrow> hashtags_data ps
      | Some cap \<Rightarrow> if cap \<noteq> [] then hashtag_entry p cap # hashtags_data ps else hashtags_data ps)"

definition hashtag_prompt :: "int \<Rightarrow> string \<Rightarrow> string" where
  "hashtag_prompt post_count rendered =
     py_lines [[],
       ''Analyze hashtag performance for the last '' @ py_str_int post_count @ '' posts.'',
       [],
       ''Data:'',
       rendered,
       [],
       ''Provide:'',
       ''- Most frequent tags'',
       ''- Correlation with engagement'',
       ''- Hashtag diversity'',
       ''- Optimization recommendations'',
       ''- New tags to test'']"

definition engagement_prompt :: "string \<Rightarrow> string \<Rightarrow> string" where
  "engagement_prompt media_id rendered =
     py_lines [[],
       ''Analyze engagement for Instagram post '' @ media_id @ ''.'',
       [],
       ''Insights:'',
       rendered,
       [],
       ''Provide:'',
       ''1) Overall performance'',
       ''2) Key metrics (reach, likes, comments, shares, saves, plays if applicable)'',
       ''3) Engagement rate & interpretation'',
       ''4) Recommendations for future posts'',
       ''5) Comparison with typical benchmarks'']"

definition strategy_prompt :: "string \<Rightarrow> string \<Rightarrow> string \<Rightarrow> string \<Rightarrow> string" where
  "strategy_prompt focus_area time_period rendered_posts rendered_insights =
     py_lines [[],
       ''Create a content strategy focusing on '' @ focus_area @ '' over the next ''
         @ time_period @ ''.'',
       [],
       ''Recent Posts:'',
       rendered_posts,
       [],
       ''Account Insights:'',
       rendered_insights,
       [],
       ''Include:'',
       ''- Performance analysis'',
       ''- Posting times & frequency'',
       ''- Content type recommendations'',
       ''- Caption & hashtag strategy'',
       ''- Engagement tactics to improve '' @ focus_area,
       ''- Action items for the next '' @ time_period]"

text \<open>The body of the \<^verbatim>\<open>try\<close> statement (lines 349 to 419).\<close>

definition get_prompt_body ::
  "env \<Rightarrow> client \<Rightarrow> string \<Rightarrow> (string \<rightharpoonup> string) \<Rightarrow> event list \<times> (exn + string)" where
  "get_prompt_body e c name arguments =
    (if name = ''analyze_engagement'' then
       (case arguments ''media_id'' of
          None \<Rightarrow> ([], Inr ''Error: media_id is required for engagement analysis'')
        | Some media_id \<Rightarrow>
            if media_id = [] then ([], Inr ''Error: media_id is required for engagement analysis'')
            else
              ([ApiCall (GetMediaInsights (PStr media_id) None)],
               case get_media_insights c (PStr media_id) None of
                 Inl x \<Rightarrow> Inl x
               | Inr insights \<Rightarrow>
                   (case json_dumps (PList (map PDict insights)) of
                      Inl x \<Rightarrow> Inl x
                    | Inr rendered \<Rightarrow> Inr (engagement_prompt media_id rendered))))
     else if name = ''content_strategy'' then
       (let focus_area = (case arguments ''focus_area'' of None \<Rightarrow> ''engagement'' | Some v \<Rightarrow> v);
            time_period = (case arguments ''time_period'' of None \<Rightarrow> ''week'' | Some v \<Rightarrow> v)
        in case get_media_posts c None (Some (PInt 20)) None of
             Inl x \<Rightarrow> ([ApiCall (GetMediaPosts None (Some (PInt 20)) None)], Inl x)
           | Inr posts \<Rightarrow>
               ([ApiCall (GetMediaPosts None (Some (PInt 20)) None),
                 ApiCall (GetAccountInsights None None None)],
                case get_account_insights c None None None of
                  Inl x \<Rightarrow> Inl x
                | Inr account_insights \<Rightarrow>
                    (case json_dumps (PList (map (\<lambda>p. PDict (post_dict p)) (take 5 posts))) of
                       Inl x \<Rightarrow> Inl x
                     | Inr rendered_posts \<Rightarrow>
                         (case json_dumps (PList (map PDict account_insights)) of
                            Inl x \<Rightarrow> Inl x
                          | Inr rendered_insights \<Rightarrow>
                              Inr (strategy_prompt focus_area time_period
                                     rendered_posts rendered_insights)))))
     else if name = ''hashtag_analysis'' then
       (case py_int e (case arguments ''post_count'' of None \<Rightarrow> ''10'' | Some v \<Rightarrow> v) of
          Inl x \<Rightarrow> ([], Inl x)
        | Inr post_count \<Rightarrow>
            ([ApiCall (GetMediaPosts None (Some (PInt post_count)) None)],
             case get_media_posts c None (Some (PInt post_count)) None of
               Inl x \<Rightarrow> Inl x
             | Inr posts \<Rightarrow>
                 (case json_dumps (PList (hashtags_data posts)) of
                    Inl x \<Rightarrow> Inl x
                  | Inr rendered \<Rightarrow> Inr (hashtag_prompt post_count rendered))))
     else ([], Inr (''Error: Unknown prompt '' @ [CHR 0x27] @ name @ [CHR 0x27])))"

definition handle_get_prompt ::
  "env \<Rightarrow> client option \<Rightarrow> string \<Rightarrow> (string \<rightharpoonup> string)
     \<Rightarrow> client option \<times> event list \<times> (exn + string)" where
  "handle_get_prompt e instagram_client name arguments =
     (case get_client e instagram_client of
        Inl x \<Rightarrow> (instagram_client, [], Inl x)
      | Inr c \<Rightarrow>
          (Some c, fst (get_prompt_body e c name arguments),
           case snd (get_prompt_body e c name arguments) of
             Inl x \<Rightarrow> Inr (''Error generating prompt: '' @ exn_str x)
           | Inr txt \<Rightarrow> Inr txt))"

section \<open>Start-up: \<^verbatim>\<open>run\<close>\<close>

text \<open>
  \<^verbatim>\<open>run\<close> builds the client before it serves (line 428) and validates the token: a
  failing construction ends \<^verbatim>\<open>run\<close> with the exception, a token that is invalid or a
  validation that raises ends the process with status 1.
\<close>

datatype startup = Crashed exn | Exited nat | Serving "client option"

definition run_startup :: "env \<Rightarrow> startup" where
  "run_startup e =
     (case InstagramClient e of
        Inl x \<Rightarrow> Crashed x
      | Inr c \<Rightarrow>
          (case validate_access_token c of
             Inl x \<Rightarrow> Exited 1
           | Inr is_valid \<Rightarrow> if py_bool is_valid then Serving (Some c) else Exited 1))"

section \<open>Reading a timestamp back\<close>

text \<open>
  The extended ISO 8601 form \<^verbatim>\<open>YYYY-MM-DDThh:mm:ss\<close>, with an optional fraction of six
  digits, naming a date of the proleptic Gregorian calendar and a time of day.
\<close>

definition leap_year :: "nat \<Rightarrow> bool" where
  "leap_year y = (y mod 4 = 0 \<and> (y mod 100 \<noteq> 0 \<or> y mod 400 = 0))"

definition days_in_month :: "nat \<Rightarrow> nat \<Rightarrow> nat" where
  "days_in_month y m =
     (if m = 2 then (if leap_year y then 29 else 28)
      else if m = 4 \<or> m = 6 \<or> m = 9 \<or> m = 11 then 30 else 31)"

definition valid_datetime :: "datetime \<Rightarrow> bool" where
  "valid_datetime d =
     (1 \<le> year d \<and> year d \<le> 9999 \<and> 1 \<le> month d \<and> month d \<le> 12
      \<and> 1 \<le> day d \<and> day d \<le> days_in_month (year d) (month d)
      \<and> hour d < 24 \<and> minute d < 60 \<and> second d < 60 \<and> microsecond d < 1000000)"

definition num_of :: "string \<Rightarrow> nat option" where
  "num_of s =
     (if list_all is_digit s then Some (foldl (\<lambda>a c. 10 * a + digit_val c) 0 s) else None)"

definition parse_iso :: "string \<Rightarrow> datetime option" where
  "parse_iso s =
     (let n = length s in
      if (n = 19 \<or> (n = 26 \<and> s ! 19 = CHR ''.''))
         \<and> s ! 4 = CHR ''-'' \<and> s ! 7 = CHR ''-'' \<and> s ! 10 = CHR ''T''
         \<and> s ! 13 = CHR '':'' \<and> s ! 16 = CHR '':''
      then
        (case (num_of (take 4 s), num_of (take 2 (drop 5 s)), num_of (take 2 (drop 8 s)),
               num_of (take 2 (drop 11 s)), num_of (take 2 (drop 14 s)),
               num_of (take 2 (drop 17 s)), num_of (drop 20 s)) of
           (Some y, Some mo, Some d, Some h, Some mi, Some se, Some us) \<Rightarrow>
             (let dt = \<lparr>year = y, month = mo, day = d, hour = h, minute = mi, second = se,
                        microsecond = us\<rparr>
              in if valid_datetime dt then Some dt else None)
         | _ \<Rightarrow> None)
      else None)"

text \<open>Earlier or equal, field by field from the year down.\<close>

fun lex_le :: "nat list \<Rightarrow> nat list \<Rightarrow> bool" where
  "lex_le [] ys = True"
| "lex_le (x # xs) [] = False"
| "lex_le (x # xs) (y # ys) = (x < y \<or> (x = y \<and> lex_le xs ys))"

definition dt_key :: "datetime \<Rightarrow> nat list" where
  "dt_key d = [year d, month d, day d, hour d, minute d, second d, microsecond d]"

definition dt_le :: "datetime \<Rightarrow> datetime \<Rightarrow> bool" where
  "dt_le a b = lex_le (dt_key a) (dt_key b)"

text \<open>A wall clock that shows dates that exist and is not set back during the call.\<close>

definition steady_clock :: "env \<Rightarrow> bool" where
  "steady_clock e =
     ((\<forall>i. valid_datetime (clock e i)) \<and> (\<forall>i j. i \<le> j \<longrightarrow> dt_le (clock e i) (clock e j)))"

section \<open>Reading an error text back\<close>

text \<open>
  A reader for JSON texts that are an object with one member whose value is a string:
  it gives the key and the value, and nothing for any other text.  Strings are read as
  JSON writes them: no raw control character, the two-character escapes, and
  \<^verbatim>\<open>\uXXXX\<close> for a code point (below 256 here).
\<close>

definition hex_val :: "char \<Rightarrow> nat option" where
  "hex_val c =
     (let n = (of_char c :: nat) in
      if 48 \<le> n \<and> n \<le> 57 then Some (n - 48)
      else if 97 \<le> n \<and> n \<le> 102 then Some (n - 87)
      else if 65 \<le> n \<and> n \<le> 70 then Some (n - 55)
      else None)"

definition unescape :: "char \<Rightarrow> char option" where
  "unescape c =
     (if c = CHR 0x22 \<or> c = CHR 0x5C \<or> c = CHR ''/'' then Some c
      else if c = CHR ''b'' then Some (CHR 0x08)
      else if c = CHR ''f'' then Some (CHR 0x0C)
      else if c = CHR ''n'' then Some (CHR 0x0A)
      else if c = CHR ''r'' then Some (CHR 0x0D)
      else if c = CHR ''t'' then Some (CHR 0x09)
      else None)"

definition hex4 :: "char \<Rightarrow> char \<Rightarrow> char \<Rightarrow> char \<Rightarrow> char option" where
  "hex4 h1 h2 h3 h4 =
     (case (hex_val h1, hex_val h2, hex_val h3, hex_val h4) of
        (Some a, Some b, Some c, Some d) \<Rightarrow>
          (let n = ((a * 16 + b) * 16 + c) * 16 + d in if n < 256 then Some (char_of n) else None)
      | _ \<Rightarrow> None)"

definition cons_char :: "char \<Rightarrow> (string \<times> string) option \<Rightarrow> (string \<times> string) option" where
  "cons_char c r = (case r of None \<Rightarrow> None | Some (s, rest) \<Rightarrow> Some (c # s, rest))"

text \<open>The characters of a string after its opening quote: the string, and what follows its closing quote.\<close>

fun json_chars :: "string \<Rightarrow> (string \<times> string) option" where
  "json_chars [] = None"
| "json_chars (c # cs) =
     (if c = CHR 0x22 then Some ([], cs)
      else if c = CHR 0x5C then
        (case cs of
           [] \<Rightarrow> None
         | x # cs1 \<Rightarrow>
             if x = CHR ''u'' then
               (case cs1 of
                  h1 # h2 # h3 # h4 # cs2 \<Rightarrow>
                    (case hex4 h1 h2 h3 h4 of
                       None \<Rightarrow> None
                     | Some ch \<Rightarrow> cons_char ch (json_chars cs2))
                | _ \<Rightarrow> None)
             else
               (case unescape x of
                  None \<Rightarrow> None
                | Some ch \<Rightarrow> cons_char ch (json_chars cs1)))
      else if (of_char c :: nat) < 0x20 then None
      else cons_char c (json_chars cs))"

definition json_ws :: "char \<Rightarrow> bool" where
  "json_ws c = (c = CHR '' '' \<or> c = CHR 0x0A \<or> c = CHR 0x0D \<or> c = CHR 0x09)"

definition json_string_at :: "string \<Rightarrow> (string \<times> string) option" where
  "json_string_at s =
     (case dropWhile json_ws s of
        [] \<Rightarrow> None
      | c # cs \<Rightarrow> if c = CHR 0x22 then json_chars cs else None)"

definition expect :: "char \<Rightarrow> string \<Rightarrow> string option" where
  "expect ch s =
     (case dropWhile json_ws s of
        [] \<Rightarrow> None
      | c # cs \<Rightarrow> if c = ch then Some cs else None)"

definition parse_single_member :: "string \<Rightarrow> (string \<times> string) option" where
  "parse_single_member s =
     (case expect (CHR ''{'') s of
        None \<Rightarrow> None
      | Some s1 \<Rightarrow>
          (case json_string_at s1 of
             None \<Rightarrow> None
           | Some (k, s2) \<Rightarrow>
               (case expect (CHR '':'') s2 of
                  None \<Rightarrow> None
                | Some s3 \<Rightarrow>
                    (case json_string_at s3 of
                       None \<Rightarrow> None
                     | Some (v, s4) \<Rightarrow>
                         (case expect (CHR ''}'') s4 of
                            None \<Rightarrow> None
                          | Some s5 \<Rightarrow>
                              if dropWhile json_ws s5 = [] then Some (k, v) else None)))))"

section \<open>Test doubles\<close>

text \<open>
  A client double whose operations all succeed, one whose operations all raise the
  structured upstream error, an environment around the first, and an environment in
  which the client cannot be constructed.
\<close>

definition stub_posts :: "post list" where
  "stub_posts =
     [\<lparr>post_id = ''p1'', caption = Some ''Sunset #tag1 #tag2'', like_count = Some 12,
       comments_count = Some 3, post_dict = [(''id'', PStr ''p1'')]\<rparr>,
      \<lparr>post_id = ''p2'', caption = None, like_count = Some 7,
       comments_count = Some 0, post_dict = [(''id'', PStr ''p2'')]\<rparr>,
      \<lparr>post_id = ''p3'', caption = Some ''#tag1 again #tag2'', like_count = Some 40,
       comments_count = None, post_dict = [(''id'', PStr ''p3'')]\<rparr>]"

definition double_client :: client where
  "double_client =
     \<lparr>get_profile_info = (\<lambda>account_id. Inr [(''username'', PStr ''acme'')]),
      get_media_posts = (\<lambda>account_id limit after. Inr stub_posts),
      get_media_insights = (\<lambda>media_id metrics. Inr [[(''name'', PStr ''reach''), (''value'', PInt 5)]]),
      publish_media = (\<lambda>request. Inr [(''id'', PStr ''m1'')]),
      get_account_pages = Inr [[(''id'', PStr ''pg1'')]],
      get_account_insights =
        (\<lambda>account_id metrics period. Inr [[(''name'', PStr ''reach''), (''value'', PInt 9)]]),
      validate_access_token = Inr (PBool True)\<rparr>"

definition upstream_error :: exn where
  "upstream_error =
     InstagramAPIError ''Invalid OAuth access token'' ''Invalid OAuth access token''
       (PInt 190) (PInt 460)"

definition failing_client :: client where
  "failing_client =
     \<lparr>get_profile_info = (\<lambda>account_id. Inl upstream_error),
      get_media_posts = (\<lambda>account_id limit after. Inl upstream_error),
      get_media_insights = (\<lambda>media_id metrics. Inl upstream_error),
      publish_media = (\<lambda>request. Inl upstream_error),
      get_account_pages = Inl upstream_error,
      get_account_insights = (\<lambda>account_id metrics period. Inl upstream_error),
      validate_access_token = Inl upstream_error\<rparr>"

definition stub_request :: "arguments \<Rightarrow> exn + model" where
  "stub_request arguments =
     Inr [(''image_url'', py_get arguments ''image_url''),
          (''video_url'', py_get arguments ''video_url''),
          (''caption'', py_get arguments ''caption''),
          (''location_id'', py_get arguments ''location_id'')]"

definition stub_repr :: "pyval \<Rightarrow> string" where
  "stub_repr v = (case v of PStr s \<Rightarrow> [CHR 0x27] @ s @ [CHR 0x27] | _ \<Rightarrow> ''...'')"

definition stub_clock :: "nat \<Rightarrow> datetime" where
  "stub_clock i =
     \<lparr>year = 2024, month = 2, day = 29, hour = 7, minute = 5, second = 9,
      microsecond = min (1200 + i) 999999\<rparr>"

definition double_env :: env where
  "double_env =
     \<lparr>InstagramClient = Inr double_client,
      InsightMetric_values =
        [''reach'', ''likes'', ''comments'', ''shares'', ''saves'', ''plays'',
         ''profile_views'', ''website_clicks''],
      PublishMediaRequest = stub_request,
      clock = stub_clock,
      elapsed = 250,
      py_repr = stub_repr,
      int_max_str_digits = 4300,
      int_error_text = (\<lambda>s. ''invalid literal for int() with base 10: '' @ stub_repr (PStr s))\<rparr>"

definition broken_env :: env where
  "broken_env =
     double_env\<lparr>InstagramClient :=
       Inl (PyException ''ValidationError'' ''instagram_access_token: field required'')\<rparr>"

text \<open>The envelope of the exclusivity check of \<^verbatim>\<open>publish_media\<close> (lines 208 to 212).\<close>

definition exclusivity_envelope :: "env \<Rightarrow> MCPToolResult" where
  "exclusivity_envelope e =
     \<lparr>success = False, data = None,
      error = Some ''Exactly one of image_url or video_url is required.'',
      metadata = Some (stamp e ''publish_media'')\<rparr>"

text \<open>Argument mappings for \<^verbatim>\<open>publish_media\<close>.\<close>

definition both_urls :: arguments where
  "both_urls =
     [''image_url'' \<mapsto> PStr ''https://example.com/a.jpg'',
      ''video_url'' \<mapsto> PStr ''https://example.com/a.mp4'']"

definition empty_image_url :: arguments where
  "empty_image_url =
     [''image_url'' \<mapsto> PStr [], ''video_url'' \<mapsto> PStr ''https://example.com/a.mp4'']"

definition empty_video_url :: arguments where
  "empty_video_url =
     [''image_url'' \<mapsto> PStr ''https://example.com/a.jpg'', ''video_url'' \<mapsto> PStr []]"

definition both_empty :: arguments where
  "both_empty = [''image_url'' \<mapsto> PStr [], ''video_url'' \<mapsto> PStr []]"

text \<open>The envelope of the generic \<^verbatim>\<open>except\<close> clause, for an exception whose text is \<open>msg\<close>.\<close>

definition generic_failure :: "string \<Rightarrow> MCPToolResult" where
  "generic_failure msg =
     \<lparr>success = False, data = None, error = Some (''Tool execution failed: '' @ msg),
      metadata = None\<rparr>"

text \<open>Argument mappings with a value outside an enumeration.\<close>

definition bogus_metrics :: arguments where
  "bogus_metrics =
     [''media_id'' \<mapsto> PStr ''m1'', ''metrics'' \<mapsto> PList [PStr ''reach'', PStr ''bogus'']]"

definition bad_period :: arguments where
  "bad_period = [''period'' \<mapsto> PStr ''month'']"

text \<open>The URIs \<^verbatim>\<open>handle_list_resources\<close> advertises, in its order.\<close>

definition resource_uris :: "string list" where
  "resource_uris =
     [''instagram://profile'', ''instagram://media/recent'', ''instagram://insights/account'',
      ''instagram://pages'']"

text \<open>
  The words of the spec for \<^verbatim>\<open>hashtag_analysis\<close>: a post has a caption when its caption
  is a string that is not empty, and the entry of such a post is made from its caption.
\<close>

definition has_caption :: "post \<Rightarrow> bool" where
  "has_caption p = (case caption p of None \<Rightarrow> False | Some cap \<Rightarrow> cap \<noteq> [])"

definition caption_text :: "post \<Rightarrow> string" where
  "caption_text p = (case caption p of None \<Rightarrow> [] | Some cap \<Rightarrow> cap)"

text \<open>
  Modelled from the spec: \<^verbatim>\<open>PublishMediaRequest\<close>, of \<^verbatim>\<open>models/instagram_models.py\<close>,
  which is not among the sources.  The spec gives it the fields \<^verbatim>\<open>imageUrl\<close> and
  \<^verbatim>\<open>videoUrl\<close>, each an optional URI, and \<^verbatim>\<open>caption\<close> and \<^verbatim>\<open>locationId\<close>, each an
  optional string, and leaves the exclusivity of the two URLs to the dispatcher.  The
  constructor below accepts a field that is absent or null, a URL field that is a string
  beginning with a URI scheme and a colon, and a text field that is a string; it raises a
  validation error otherwise.
\<close>

definition is_alpha :: "char \<Rightarrow> bool" where
  "is_alpha c =
     (let n = (of_char c :: nat) in (65 \<le> n \<and> n \<le> 90) \<or> (97 \<le> n \<and> n \<le> 122))"

definition scheme_char :: "char \<Rightarrow> bool" where
  "scheme_char c =
     (is_alpha c \<or> is_digit c \<or> c = CHR ''+'' \<or> c = CHR ''-'' \<or> c = CHR ''.'')"

definition is_uri :: "string \<Rightarrow> bool" where
  "is_uri s =
     (case takeWhile (\<lambda>c. c \<noteq> CHR '':'') s of
        [] \<Rightarrow> False
      | a # r \<Rightarrow> is_alpha a \<and> list_all scheme_char r \<and> length (a # r) < length s)"

definition url_field_ok :: "pyval \<Rightarrow> bool" where
  "url_field_ok v = (case v of PNone \<Rightarrow> True | PStr s \<Rightarrow> is_uri s | _ \<Rightarrow> False)"

definition text_field_ok :: "pyval \<Rightarrow> bool" where
  "text_field_ok v = (case v of PNone \<Rightarrow> True | PStr s \<Rightarrow> True | _ \<Rightarrow> False)"

definition uri_request :: "arguments \<Rightarrow> exn + model" where
  "uri_request arguments =
     (if url_field_ok (py_get arguments ''image_url'')
         \<and> url_field_ok (py_get arguments ''video_url'')
         \<and> text_field_ok (py_get arguments ''caption'')
         \<and> text_field_ok (py_get arguments ''location_id'')
      then Inr [(''image_url'', py_get arguments ''image_url''),
                (''video_url'', py_get arguments ''video_url''),
                (''caption'', py_get arguments ''caption''),
                (''location_id'', py_get arguments ''location_id'')]
      else Inl (PyException ''ValidationError'' ''1 validation error for PublishMediaRequest''))"

text \<open>The environment of the doubles with this constructor.\<close>

definition uri_env :: env where
  "uri_env = double_env\<lparr>PublishMediaRequest := uri_request\<rparr>"

text \<open>Arguments of the \<^verbatim>\<open>hashtag_analysis\<close> prompt that ask for three posts.\<close>

definition three_posts :: "string \<rightharpoonup> string" where
  "three_posts = [''post_count'' \<mapsto> ''3'']"

text \<open>The number a list of digits writes, most significant digit first.\<close>

definition horner :: "nat \<Rightarrow> string \<Rightarrow> nat" where
  "horner acc ds = foldl (\<lambda>a c. 10 * a + digit_val c) acc ds"

section \<open>The client handle\<close>

lemma get_client_Some: "get_client e (Some c) = Inr c"
  by (simp add: get_client_def)

text \<open>A process that \<^verbatim>\<open>run\<close> brought to serving holds a client handle.\<close>

lemma run_startup_serving:
  "run_startup e = Serving st \<Longrightarrow> \<exists>c. st = Some c \<and> get_client e st = Inr c"
  by (auto simp: run_startup_def get_client_def split: sum.splits if_splits)

text \<open>With the handle obtained, the handler returns the wrapped envelope of the call.\<close>

lemma handle_call_tool_ready:
  "get_client e st = Inr c \<Longrightarrow>
   handle_call_tool e st name arguments =
     (Some c, fst (call_tool_body e c name arguments),
      Inr (wrap (call_tool_result e c name arguments)))"
  by (simp add: handle_call_tool_def)

lemma double_env_ready: "get_client double_env None = Inr double_client"
  by (simp add: get_client_def double_env_def)

section \<open>Unknown tools\<close>

lemma body_unknown:
  "name \<notin> set tool_names \<Longrightarrow>
   call_tool_body e c name arguments =
     ([], Inr \<lparr>success = False, data = None, error = Some (''Unknown tool: '' @ name),
               metadata = None\<rparr>)"
  by (simp add: call_tool_body_def tool_names_def)

text \<open>
  Claim C6.  For every invocation whose name is not one of the seven catalogued tools,
  the handler, holding a client handle, returns the envelope with \<open>success = False\<close>,
  the message \<^verbatim>\<open>Unknown tool: \<close> followed by the name, and no metadata; it invokes no
  operation of the client.
\<close>

theorem unknown_tool_envelope:
  assumes "get_client e st = Inr c" and "name \<notin> set tool_names"
  shows "handle_call_tool e st name arguments =
    (Some c, [],
     Inr (wrap \<lparr>success = False, data = None, error = Some (''Unknown tool: '' @ name),
                metadata = None\<rparr>))"
  using assms by (simp add: handle_call_tool_ready call_tool_result_def body_unknown)

theorem unknown_tool_envelope_witness:
  "get_client double_env None = Inr double_client \<and> ''delete_media'' \<notin> set tool_names \<and>
   handle_call_tool double_env None ''delete_media'' Map.empty =
    (Some double_client, [],
     Inr (wrap \<lparr>success = False, data = None, error = Some ''Unknown tool: delete_media'',
                metadata = None\<rparr>))"
proof -
  have h: "''delete_media'' \<notin> set tool_names"
    by (simp add: tool_names_def)
  show ?thesis
    using h double_env_ready unknown_tool_envelope [OF double_env_ready h, of Map.empty]
    by simp
qed

section \<open>Publishing: the exclusivity check\<close>

lemma body_publish:
  "call_tool_body e c ''publish_media'' arguments =
    (if py_bool (py_get arguments ''image_url'') = py_bool (py_get arguments ''video_url'') then
       ([], Inr (exclusivity_envelope e))
     else
       (case PublishMediaRequest e arguments of
          Inl x \<Rightarrow> ([RequestBuilt arguments], Inl x)
        | Inr request \<Rightarrow>
            ([RequestBuilt arguments, ApiCall (PublishMedia request)],
             case publish_media c request of
               Inl x \<Rightarrow> Inl x
             | Inr response \<Rightarrow>
                 Inr \<lparr>success = True, data = Some (PDict response), error = None,
                      metadata = Some (stamp e ''publish_media'')\<rparr>)))"
  by (simp add: call_tool_body_def Let_def exclusivity_envelope_def)

text \<open>
  Claim C2, as stated, fails: with both \<^verbatim>\<open>image_url\<close> and \<^verbatim>\<open>video_url\<close> supplied, the
  first as the empty string, the check passes, the request is built and the client's
  \<^verbatim>\<open>publish_media\<close> is invoked.
\<close>

theorem publish_both_supplied_counterexample:
  "empty_image_url ''image_url'' \<noteq> None \<and> empty_image_url ''video_url'' \<noteq> None \<and>
   handle_call_tool double_env None ''publish_media'' empty_image_url =
     (Some double_client,
      [RequestBuilt empty_image_url,
       ApiCall (PublishMedia [(''image_url'', PStr []),
                              (''video_url'', PStr ''https://example.com/a.mp4''),
                              (''caption'', PNone), (''location_id'', PNone)])],
      Inr (wrap \<lparr>success = True, data = Some (PDict [(''id'', PStr ''m1'')]), error = None,
                 metadata = Some (stamp double_env ''publish_media'')\<rparr>))"
  unfolding handle_call_tool_ready [OF double_env_ready] call_tool_result_def body_publish
  by (simp add: empty_image_url_def py_get_def double_env_def stub_request_def double_client_def)

text \<open>
  Claim C2, amended.  For every \<^verbatim>\<open>publish_media\<close> invocation in which \<^verbatim>\<open>image_url\<close> and
  \<^verbatim>\<open>video_url\<close> have the same truth value (both non-empty, or each of them absent, null
  or empty), the handler, holding a client handle, returns \<open>success = False\<close> with the
  fixed exclusivity message; the list of events is empty: no request is built and no
  operation of the client is invoked.
\<close>

theorem publish_exclusive:
  assumes "get_client e st = Inr c"
    and "py_bool (py_get arguments ''image_url'') = py_bool (py_get arguments ''video_url'')"
  shows "handle_call_tool e st ''publish_media'' arguments =
    (Some c, [], Inr (wrap (exclusivity_envelope e)))"
  using assms by (simp add: handle_call_tool_ready call_tool_result_def body_publish)

theorem publish_exclusive_witness:
  "handle_call_tool double_env None ''publish_media'' both_urls =
     (Some double_client, [], Inr (wrap (exclusivity_envelope double_env)))
   \<and> handle_call_tool double_env None ''publish_media'' Map.empty =
     (Some double_client, [], Inr (wrap (exclusivity_envelope double_env)))"
proof -
  have a: "py_bool (py_get both_urls ''image_url'') = py_bool (py_get both_urls ''video_url'')"
    by (simp add: both_urls_def py_get_def)
  have b: "py_bool (py_get Map.empty ''image_url'') = py_bool (py_get Map.empty ''video_url'')"
    by (simp add: py_get_def)
  show ?thesis
    using publish_exclusive [OF double_env_ready a] publish_exclusive [OF double_env_ready b]
    by simp
qed

lemma uri_env_ready: "get_client uri_env None = Inr double_client"
  by (simp add: get_client_def uri_env_def double_env_def)

text \<open>
  Claim C10, as stated, fails against the request of the spec, whose URL fields are
  URIs: with \<^verbatim>\<open>image_url\<close> supplied as the empty string and a non-empty \<^verbatim>\<open>video_url\<close>,
  the check passes and the request is built, but the constructor refuses the empty
  string, and the call ends in the generic failure envelope without reaching the client.
\<close>

theorem publish_empty_url_counterexample:
  "empty_image_url ''image_url'' = Some (PStr [])
   \<and> empty_image_url ''video_url'' = Some (PStr ''https://example.com/a.mp4'')
   \<and> handle_call_tool uri_env None ''publish_media'' empty_image_url =
     (Some double_client, [RequestBuilt empty_image_url],
      Inr (wrap (generic_failure ''1 validation error for PublishMediaRequest'')))"
proof -
  have r: "PublishMediaRequest uri_env empty_image_url =
      Inl (PyException ''ValidationError'' ''1 validation error for PublishMediaRequest'')"
    by (simp add: uri_env_def uri_request_def url_field_ok_def is_uri_def empty_image_url_def
        py_get_def)
  have t: "py_bool (py_get empty_image_url ''image_url'')
      \<noteq> py_bool (py_get empty_image_url ''video_url'')"
    by (simp add: empty_image_url_def py_get_def)
  show ?thesis
    unfolding handle_call_tool_ready [OF uri_env_ready] call_tool_result_def body_publish
    using t by (simp add: r generic_failure_def) (simp add: empty_image_url_def)
qed

text \<open>
  Claim C10, amended.  The check compares truth values, not the presence of keys.  When
  one of \<^verbatim>\<open>image_url\<close> and \<^verbatim>\<open>video_url\<close> is supplied as the empty string and the other
  as a non-empty string, the check passes and the handler builds the request from the
  arguments; it invokes the client's \<^verbatim>\<open>publish_media\<close> only when the constructor
  returns a request, and a request the constructor refuses ends in the generic failure
  envelope with no operation of the client invoked.  When both are supplied as empty
  strings, it returns the exclusivity envelope and does neither.
\<close>

theorem publish_truthiness:
  assumes "get_client e st = Inr c"
  shows "(arguments ''image_url'' = Some (PStr []) \<and> arguments ''video_url'' = Some (PStr v)
            \<and> v \<noteq> []
          \<or> arguments ''video_url'' = Some (PStr []) \<and> arguments ''image_url'' = Some (PStr v)
            \<and> v \<noteq> []
          \<longrightarrow> handle_call_tool e st ''publish_media'' arguments =
             (case PublishMediaRequest e arguments of
                Inl x \<Rightarrow> (Some c, [RequestBuilt arguments], Inr (wrap (on_exception x)))
              | Inr request \<Rightarrow>
                  (Some c, [RequestBuilt arguments, ApiCall (PublishMedia request)],
                   Inr (wrap (case publish_media c request of
                                Inl x \<Rightarrow> on_exception x
                              | Inr response \<Rightarrow>
                                  \<lparr>success = True, data = Some (PDict response), error = None,
                                   metadata = Some (stamp e ''publish_media'')\<rparr>)))))
       \<and> (arguments ''image_url'' = Some (PStr []) \<and> arguments ''video_url'' = Some (PStr [])
          \<longrightarrow> handle_call_tool e st ''publish_media'' arguments =
                (Some c, [], Inr (wrap (exclusivity_envelope e))))"
  using assms
  by (auto simp: handle_call_tool_ready call_tool_result_def body_publish py_get_def
      split: sum.splits)

theorem publish_truthiness_witness:
  "handle_call_tool double_env None ''publish_media'' empty_video_url =
     (Some double_client,
      [RequestBuilt empty_video_url,
       ApiCall (PublishMedia [(''image_url'', PStr ''https://example.com/a.jpg''),
                              (''video_url'', PStr []),
                              (''caption'', PNone), (''location_id'', PNone)])],
      Inr (wrap \<lparr>success = True, data = Some (PDict [(''id'', PStr ''m1'')]), error = None,
                 metadata = Some (stamp double_env ''publish_media'')\<rparr>))
   \<and> handle_call_tool uri_env None ''publish_media'' empty_video_url =
     (Some double_client, [RequestBuilt empty_video_url],
      Inr (wrap (generic_failure ''1 validation error for PublishMediaRequest'')))
   \<and> handle_call_tool double_env None ''publish_media'' both_empty =
     (Some double_client, [], Inr (wrap (exclusivity_envelope double_env)))"
proof -
  have r: "PublishMediaRequest double_env empty_video_url =
      Inr [(''image_url'', PStr ''https://example.com/a.jpg''), (''video_url'', PStr []),
           (''caption'', PNone), (''location_id'', PNone)]"
    by (simp add: double_env_def stub_request_def empty_video_url_def py_get_def)
  have r': "PublishMediaRequest uri_env empty_video_url =
      Inl (PyException ''ValidationError'' ''1 validation error for PublishMediaRequest'')"
    by (simp add: uri_env_def uri_request_def url_field_ok_def is_uri_def empty_video_url_def
        py_get_def)
  have p: "publish_media double_client request = Inr [(''id'', PStr ''m1'')]" for request
    by (simp add: double_client_def)
  have a: "empty_video_url ''video_url'' = Some (PStr [])
      \<and> empty_video_url ''image_url'' = Some (PStr ''https://example.com/a.jpg'')"
    by (simp add: empty_video_url_def)
  have b: "both_empty ''image_url'' = Some (PStr []) \<and> both_empty ''video_url'' = Some (PStr [])"
    by (simp add: both_empty_def)
  show ?thesis
    using a b
      publish_truthiness [OF double_env_ready, of empty_video_url "''https://example.com/a.jpg''"]
      publish_truthiness [OF uri_env_ready, of empty_video_url "''https://example.com/a.jpg''"]
      publish_truthiness [OF double_env_ready, of both_empty]
    by (simp add: r r' p generic_failure_def)
qed

section \<open>Upstream errors\<close>

text \<open>
  Claim C4.  When the call fails with the structured upstream error, raised inside the
  guarded block with message, code and subcode, the handler returns \<open>success = False\<close>
  with the error text \<^verbatim>\<open>Instagram API error: \<close> followed by the upstream message, and
  the metadata has exactly the two entries \<^verbatim>\<open>error_code\<close> and \<^verbatim>\<open>error_subcode\<close>: no
  tool name and no timestamp.
\<close>

theorem upstream_error_envelope:
  assumes "get_client e st = Inr c"
    and "snd (call_tool_body e c name arguments) = Inl (InstagramAPIError txt message code subcode)"
  shows "handle_call_tool e st name arguments =
    (Some c, fst (call_tool_body e c name arguments),
     Inr (wrap \<lparr>success = False, data = None,
                error = Some (''Instagram API error: '' @ message),
                metadata = Some [(''error_code'', code), (''error_subcode'', subcode)]\<rparr>))"
  using assms by (simp add: handle_call_tool_ready call_tool_result_def)

theorem upstream_error_envelope_witness:
  "handle_call_tool double_env (Some failing_client) ''get_account_pages'' Map.empty =
    (Some failing_client, [ApiCall GetAccountPages],
     Inr (wrap \<lparr>success = False, data = None,
                error = Some ''Instagram API error: Invalid OAuth access token'',
                metadata = Some [(''error_code'', PInt 190), (''error_subcode'', PInt 460)]\<rparr>))"
proof -
  have b: "call_tool_body double_env failing_client ''get_account_pages'' Map.empty =
      ([ApiCall GetAccountPages],
       Inl (InstagramAPIError ''Invalid OAuth access token'' ''Invalid OAuth access token''
              (PInt 190) (PInt 460)))"
    by (simp add: call_tool_body_def failing_client_def upstream_error_def)
  have s: "snd (call_tool_body double_env failing_client ''get_account_pages'' Map.empty) =
      Inl (InstagramAPIError ''Invalid OAuth access token'' ''Invalid OAuth access token''
             (PInt 190) (PInt 460))"
    by (simp add: b)
  show ?thesis
    using upstream_error_envelope [OF get_client_Some s] by (simp add: b)
qed

lemma double_env_fields:
  "InsightMetric_values double_env =
     [''reach'', ''likes'', ''comments'', ''shares'', ''saves'', ''plays'', ''profile_views'',
      ''website_clicks'']"
  "PublishMediaRequest double_env = stub_request"
  "clock double_env = stub_clock"
  "elapsed double_env = 250"
  "py_repr double_env = stub_repr"
  by (simp_all add: double_env_def)

section \<open>Coercion into the enumerations\<close>

lemma coerce_metric_outside:
  "s \<notin> set (InsightMetric_values e) \<Longrightarrow>
   \<exists>msg. coerce_metric e (PStr s) = Inl (PyException ''ValueError'' msg)"
  by (simp add: coerce_metric_def)

lemma coerce_metric_error:
  "coerce_metric e m = Inl x \<Longrightarrow> \<exists>msg. x = PyException ''ValueError'' msg"
  by (auto simp: coerce_metric_def split: pyval.splits if_splits)

text \<open>A list with a string outside the enumeration is not coerced, wherever the string stands.\<close>

lemma coerce_metrics_outside:
  "PStr s \<in> set ms \<Longrightarrow> s \<notin> set (InsightMetric_values e) \<Longrightarrow>
   \<exists>msg. coerce_metrics e ms = Inl (PyException ''ValueError'' msg)"
proof (induction ms)
  case Nil
  then show ?case by simp
next
  case (Cons m ms)
  show ?case
  proof (cases "coerce_metric e m")
    case (Inl x)
    then show ?thesis using coerce_metric_error [OF Inl] by auto
  next
    case (Inr v)
    then have "m \<noteq> PStr s"
      using Cons.prems(2) coerce_metric_outside [of s e] by auto
    then have "PStr s \<in> set ms"
      using Cons.prems(1) by simp
    then obtain msg where "coerce_metrics e ms = Inl (PyException ''ValueError'' msg)"
      using Cons.IH Cons.prems(2) by blast
    then show ?thesis using Inr by simp
  qed
qed

lemma body_media_insights_bad_metric:
  assumes "arguments ''metrics'' = Some (PList ms)" and "PStr s \<in> set ms"
    and "s \<notin> set (InsightMetric_values e)"
  shows "\<exists>cls msg. call_tool_body e c ''get_media_insights'' arguments =
           ([], Inl (PyException cls msg))"
proof -
  obtain msg where t: "coerce_metrics e ms = Inl (PyException ''ValueError'' msg)"
    using coerce_metrics_outside [OF assms(2,3)] by blast
  have ne: "ms \<noteq> []"
    using assms(2) by auto
  show ?thesis
    using assms(1) t ne
    by (cases "arguments ''media_id''") (simp_all add: call_tool_body_def py_get_def py_iter_def)
qed

lemma coerce_period_outside:
  "s \<noteq> ''day'' \<Longrightarrow> s \<noteq> ''week'' \<Longrightarrow> s \<noteq> ''days_28'' \<Longrightarrow>
   coerce_period e (PStr s) =
     Inl (PyException ''ValueError'' (py_repr e (PStr s) @ '' is not a valid InsightPeriod''))"
  by (simp add: coerce_period_def)

lemma body_account_insights_bad_period:
  assumes "arguments ''period'' = Some (PStr s)"
    and "s \<notin> set (map period_value [Day, Week, Days28])"
  shows "\<exists>cls msg. call_tool_body e c ''get_account_insights'' arguments =
           ([], Inl (PyException cls msg))"
  using assms by (simp add: call_tool_body_def py_get_default_def coerce_period_outside)

text \<open>
  Claim C5.  A \<^verbatim>\<open>get_media_insights\<close> invocation whose \<^verbatim>\<open>metrics\<close> array contains a
  string outside the metric enumeration, and a \<^verbatim>\<open>get_account_insights\<close> invocation
  whose \<^verbatim>\<open>period\<close> is a string outside the period enumeration, end in the generic
  failure envelope (\<open>success = False\<close>), and the list of events is empty: the call
  fails before any operation of the client is invoked.
\<close>

theorem invalid_enum_fails_before_api:
  assumes "get_client e st = Inr c"
  shows "(arguments ''metrics'' = Some (PList ms) \<and> PStr s \<in> set ms
            \<and> s \<notin> set (InsightMetric_values e)
          \<longrightarrow> (\<exists>msg. handle_call_tool e st ''get_media_insights'' arguments =
                  (Some c, [], Inr (wrap (generic_failure msg)))))
       \<and> (arguments ''period'' = Some (PStr s)
            \<and> s \<notin> set (map period_value [Day, Week, Days28])
          \<longrightarrow> (\<exists>msg. handle_call_tool e st ''get_account_insights'' arguments =
                  (Some c, [], Inr (wrap (generic_failure msg)))))"
proof (intro conjI impI)
  assume "arguments ''metrics'' = Some (PList ms) \<and> PStr s \<in> set ms
            \<and> s \<notin> set (InsightMetric_values e)"
  then obtain cls msg where
    "call_tool_body e c ''get_media_insights'' arguments = ([], Inl (PyException cls msg))"
    using body_media_insights_bad_metric [of arguments ms s e c] by blast
  then have "handle_call_tool e st ''get_media_insights'' arguments =
                  (Some c, [], Inr (wrap (generic_failure msg)))"
    using assms by (simp add: handle_call_tool_ready call_tool_result_def generic_failure_def)
  then show "\<exists>msg. handle_call_tool e st ''get_media_insights'' arguments =
                  (Some c, [], Inr (wrap (generic_failure msg)))"
    by blast
next
  assume "arguments ''period'' = Some (PStr s)
            \<and> s \<notin> set (map period_value [Day, Week, Days28])"
  then obtain cls msg where
    "call_tool_body e c ''get_account_insights'' arguments = ([], Inl (PyException cls msg))"
    using body_account_insights_bad_period [of arguments s e c] by blast
  then have "handle_call_tool e st ''get_account_insights'' arguments =
                  (Some c, [], Inr (wrap (generic_failure msg)))"
    using assms by (simp add: handle_call_tool_ready call_tool_result_def generic_failure_def)
  then show "\<exists>msg. handle_call_tool e st ''get_account_insights'' arguments =
                  (Some c, [], Inr (wrap (generic_failure msg)))"
    by blast
qed

theorem invalid_enum_fails_before_api_witness:
  "(\<exists>msg. handle_call_tool double_env None ''get_media_insights'' bogus_metrics =
            (Some double_client, [], Inr (wrap (generic_failure msg))))
   \<and> (\<exists>msg. handle_call_tool double_env None ''get_account_insights'' bad_period =
            (Some double_client, [], Inr (wrap (generic_failure msg))))"
proof -
  have a: "bogus_metrics ''metrics'' = Some (PList [PStr ''reach'', PStr ''bogus''])
      \<and> PStr ''bogus'' \<in> set [PStr ''reach'', PStr ''bogus'']
      \<and> ''bogus'' \<notin> set (InsightMetric_values double_env)"
    by (simp add: bogus_metrics_def double_env_fields)
  have b: "bad_period ''period'' = Some (PStr ''month'')
      \<and> ''month'' \<notin> set (map period_value [Day, Week, Days28])"
    by (simp add: bad_period_def)
  show ?thesis
    using a b
      invalid_enum_fails_before_api [OF double_env_ready,
        of bogus_metrics "[PStr ''reach'', PStr ''bogus'']" "''bogus''"]
      invalid_enum_fails_before_api [OF double_env_ready, of bad_period "[]" "''month''"]
    by blast
qed

section \<open>The default period\<close>

lemma body_account_insights_default:
  assumes "arguments ''period'' = None"
  shows "call_tool_body e c ''get_account_insights'' arguments =
    ([ApiCall (GetAccountInsights (Some (py_get arguments ''account_id''))
                 (Some (py_get arguments ''metrics'')) (Some Day))],
     case get_account_insights c (Some (py_get arguments ''account_id''))
            (Some (py_get arguments ''metrics'')) (Some Day) of
       Inl x \<Rightarrow> Inl x
     | Inr insights \<Rightarrow>
         Inr \<lparr>success = True,
              data = Some (PDict [(''insights'', PList (map PDict insights)),
                                  (''period'', PStr ''day'')]),
              error = None, metadata = Some (stamp e ''get_account_insights'')\<rparr>)"
  using assms
  by (simp add: call_tool_body_def py_get_default_def coerce_period_def Let_def
      split: sum.splits)

text \<open>
  Claim C9.  For a \<^verbatim>\<open>get_account_insights\<close> invocation with no \<^verbatim>\<open>period\<close> argument, the
  one operation invoked is the client's \<^verbatim>\<open>get_account_insights\<close> with the period
  \<^verbatim>\<open>day\<close>, and the envelope built from the insights it returns has the value of that
  period, \<^verbatim>\<open>day\<close>, under \<^verbatim>\<open>period\<close> in its data (when the operation raises, the
  envelope is the one of the exception and has no data).
\<close>

theorem account_insights_default_period:
  assumes "get_client e st = Inr c" and "arguments ''period'' = None"
  shows "handle_call_tool e st ''get_account_insights'' arguments =
    (Some c,
     [ApiCall (GetAccountInsights (Some (py_get arguments ''account_id''))
                 (Some (py_get arguments ''metrics'')) (Some Day))],
     Inr (wrap (case get_account_insights c (Some (py_get arguments ''account_id''))
                       (Some (py_get arguments ''metrics'')) (Some Day) of
                  Inl x \<Rightarrow> on_exception x
                | Inr insights \<Rightarrow>
                    \<lparr>success = True,
                     data = Some (PDict [(''insights'', PList (map PDict insights)),
                                         (''period'', PStr (period_value Day))]),
                     error = None, metadata = Some (stamp e ''get_account_insights'')\<rparr>)))"
  using assms
  by (simp add: handle_call_tool_ready call_tool_result_def body_account_insights_default
      split: sum.splits)

theorem account_insights_default_period_witness:
  "handle_call_tool double_env None ''get_account_insights'' Map.empty =
    (Some double_client,
     [ApiCall (GetAccountInsights (Some PNone) (Some PNone) (Some Day))],
     Inr (wrap \<lparr>success = True,
          data = Some (PDict [(''insights'',
                               PList [PDict [(''name'', PStr ''reach''), (''value'', PInt 9)]]),
                              (''period'', PStr ''day'')]),
          error = None, metadata = Some (stamp double_env ''get_account_insights'')\<rparr>))"
proof -
  have n: "Map.empty ''period'' = (None :: pyval option)"
    by simp
  have g: "get_account_insights double_client a m p =
      Inr [[(''name'', PStr ''reach''), (''value'', PInt 9)]]" for a m p
    by (simp add: double_client_def)
  show ?thesis
    using account_insights_default_period [OF double_env_ready n]
    by (simp add: g py_get_def)
qed

section \<open>The envelope of every call\<close>

lemma body_envelope_shape:
  "snd (call_tool_body e c name arguments) = Inr r \<Longrightarrow>
     (if success r
      then (\<exists>kvs. data r = Some (PDict kvs)) \<and> error r = None
         \<and> metadata r = Some (stamp e name)
      else data r = None \<and> (\<exists>m. error r = Some m))"
  unfolding call_tool_body_def Let_def
  by (auto split: if_splits sum.splits option.splits)

lemma on_exception_shape:
  "\<not> success (on_exception x) \<and> data (on_exception x) = None
   \<and> (\<exists>m. error (on_exception x) = Some m)"
  by (cases x) simp_all

lemma result_shape:
  "(if success (call_tool_result e c name arguments)
      then (\<exists>kvs. data (call_tool_result e c name arguments) = Some (PDict kvs))
         \<and> error (call_tool_result e c name arguments) = None
         \<and> metadata (call_tool_result e c name arguments) = Some (stamp e name)
      else data (call_tool_result e c name arguments) = None
         \<and> (\<exists>m. error (call_tool_result e c name arguments) = Some m))"
proof (cases "snd (call_tool_body e c name arguments)")
  case (Inl x)
  then show ?thesis
    using on_exception_shape [of x] by (simp add: call_tool_result_def)
next
  case (Inr r)
  then show ?thesis
    using body_envelope_shape [OF Inr] by (simp add: call_tool_result_def)
qed

lemma handle_call_tool_returns:
  "handle_call_tool e st name arguments = (st', tr, Inr out) \<Longrightarrow>
   \<exists>c. get_client e st = Inr c \<and> st' = Some c
      \<and> out = wrap (call_tool_result e c name arguments)"
  by (auto simp: handle_call_tool_def split: sum.splits)

text \<open>
  Claim C1, as stated, fails: the handle is obtained before the \<^verbatim>\<open>try\<close> statement, so
  when no client has been built yet and \<^verbatim>\<open>InstagramClient()\<close> raises, the handler
  raises to its caller.
\<close>

theorem lazy_construction_counterexample:
  "handle_call_tool broken_env None ''get_profile_info'' Map.empty =
     (None, [], Inl (PyException ''ValidationError'' ''instagram_access_token: field required''))"
  by (simp add: handle_call_tool_def get_client_def broken_env_def)

text \<open>
  Claim C1, amended.  For every name and every argument mapping, a call that holds the
  client handle (built already, as \<^verbatim>\<open>run\<close> does before serving, or built at this first
  use) returns an envelope and does not raise: an exception raised inside the guarded
  block becomes the envelope of its \<^verbatim>\<open>except\<close> clause, with \<open>success = False\<close>, and an
  envelope the block returns is passed on.
\<close>

theorem call_tool_envelope_always:
  assumes "get_client e st = Inr c"
  shows "\<exists>tr r. handle_call_tool e st name arguments = (Some c, tr, Inr (wrap r))
     \<and> (case snd (call_tool_body e c name arguments) of
          Inl x \<Rightarrow> r = on_exception x \<and> \<not> success r
        | Inr r' \<Rightarrow> r = r')"
  using assms on_exception_shape
  by (auto simp: handle_call_tool_ready call_tool_result_def split: sum.splits)

theorem call_tool_envelope_always_witness:
  "\<exists>tr r. handle_call_tool double_env None ''get_media_insights'' Map.empty =
            (Some double_client, tr, Inr (wrap r))
      \<and> r = generic_failure ([CHR 0x27] @ ''media_id'' @ [CHR 0x27]) \<and> \<not> success r"
proof -
  have b: "snd (call_tool_body double_env double_client ''get_media_insights'' Map.empty) =
      Inl (PyException ''KeyError'' ([CHR 0x27] @ ''media_id'' @ [CHR 0x27]))"
    by (simp add: call_tool_body_def)
  show ?thesis
    using call_tool_envelope_always [OF double_env_ready, of "''get_media_insights''" Map.empty]
    by (auto simp: b generic_failure_def)
qed

subsection \<open>The timestamp\<close>

lemma of_char_digit_char: "k < 10 \<Longrightarrow> (of_char (digit_char k) :: nat) = 48 + k"
  by (simp add: digit_char_def)

lemma is_digit_digit_char: "k < 10 \<Longrightarrow> is_digit (digit_char k)"
  by (simp add: is_digit_def of_char_digit_char)

lemma digit_val_digit_char: "k < 10 \<Longrightarrow> digit_val (digit_char k) = k"
  by (simp add: digit_val_def of_char_digit_char)

lemma num_of_pad2: "n < 100 \<Longrightarrow> num_of (pad2 n) = Some n"
  by (simp add: num_of_def pad2_def is_digit_digit_char digit_val_digit_char)

lemma num_of_pad4: "n < 10000 \<Longrightarrow> num_of (pad4 n) = Some n"
  by (simp add: num_of_def pad4_def pad2_def is_digit_digit_char digit_val_digit_char)

lemma num_of_pad6: "n < 1000000 \<Longrightarrow> num_of (pad6 n) = Some n"
  by (simp add: num_of_def pad6_def pad4_def pad2_def is_digit_digit_char digit_val_digit_char)

lemma length_pad [simp]: "length (pad2 n) = 2" "length (pad4 n) = 4" "length (pad6 n) = 6"
  by (simp_all add: pad6_def pad4_def pad2_def)

lemma num_of_Nil [simp]: "num_of [] = Some 0"
  by (simp add: num_of_def)

text \<open>What \<^verbatim>\<open>isoformat\<close> writes for a date that exists reads back as that date.\<close>

lemma parse_iso_isoformat:
  assumes "valid_datetime d"
  shows "parse_iso (isoformat d) = Some d"
proof -
  have y: "year d < 10000" and mo: "month d < 100" and dd: "day d < 100"
    and h: "hour d < 100" and mi: "minute d < 100" and se: "second d < 100"
    and us: "microsecond d < 1000000"
    using assms by (auto simp: valid_datetime_def days_in_month_def split: if_splits)
  have v: "valid_datetime \<lparr>year = year d, month = month d, day = day d, hour = hour d,
      minute = minute d, second = second d, microsecond = microsecond d\<rparr>"
    using assms by (simp add: valid_datetime_def)
  show ?thesis
  proof (cases "microsecond d = 0")
    case True
    then show ?thesis
      using v
      by (simp add: parse_iso_def isoformat_def Let_def nth_append
          num_of_pad2 [OF mo] num_of_pad2 [OF dd] num_of_pad2 [OF h] num_of_pad2 [OF mi]
          num_of_pad2 [OF se] num_of_pad4 [OF y])
  next
    case False
    then show ?thesis
      using v
      by (simp add: parse_iso_def isoformat_def Let_def nth_append
          num_of_pad2 [OF mo] num_of_pad2 [OF dd] num_of_pad2 [OF h] num_of_pad2 [OF mi]
          num_of_pad2 [OF se] num_of_pad4 [OF y] num_of_pad6 [OF us])
  qed
qed

lemma steady_clock_stamp:
  assumes "steady_clock e"
  shows "parse_iso (isoformat (utcnow e)) = Some (utcnow e) \<and> dt_le (call_start e) (utcnow e)"
  using assms by (simp add: steady_clock_def utcnow_def call_start_def parse_iso_isoformat)

lemma steady_double_env: "steady_clock double_env"
  by (auto simp: steady_clock_def double_env_fields stub_clock_def valid_datetime_def
      days_in_month_def leap_year_def dt_le_def dt_key_def)

text \<open>
  Claim C3.  Every envelope the handler returns has exactly one of \<^verbatim>\<open>data\<close> and
  \<^verbatim>\<open>error\<close>: a dictionary as data and no error when \<open>success\<close> is true, an error text and
  no data when it is false.  The metadata of a successful envelope is the name of the
  invoked tool under \<^verbatim>\<open>tool\<close> and a text under \<^verbatim>\<open>timestamp\<close> that reads back as an
  ISO 8601 date and time not earlier than the start of the call.  The wall clock is
  taken to show dates that exist and not to be set back during the call.
\<close>

theorem envelope_invariant:
  assumes "handle_call_tool e st name arguments = (st', tr, Inr out)" and "steady_clock e"
  shows "\<exists>c r. st' = Some c \<and> r = call_tool_result e c name arguments \<and> out = wrap r \<and>
     (if success r
      then (\<exists>kvs. data r = Some (PDict kvs)) \<and> error r = None
         \<and> (\<exists>ts t. metadata r = Some [(''tool'', PStr name), (''timestamp'', PStr ts)]
                \<and> parse_iso ts = Some t \<and> dt_le (call_start e) t)
      else data r = None \<and> (\<exists>m. error r = Some m))"
proof -
  obtain c where c: "st' = Some c"
    and out: "out = wrap (call_tool_result e c name arguments)"
    using handle_call_tool_returns [OF assms(1)] by blast
  let ?r = "call_tool_result e c name arguments"
  show ?thesis
  proof (cases "success ?r")
    case True
    then have s: "(\<exists>kvs. data ?r = Some (PDict kvs)) \<and> error ?r = None
        \<and> metadata ?r = Some (stamp e name)"
      using result_shape [of e c name arguments] by simp
    then have "metadata ?r =
        Some [(''tool'', PStr name), (''timestamp'', PStr (isoformat (utcnow e)))]"
      by (simp add: stamp_def)
    then have "\<exists>ts t. metadata ?r = Some [(''tool'', PStr name), (''timestamp'', PStr ts)]
                \<and> parse_iso ts = Some t \<and> dt_le (call_start e) t"
      using steady_clock_stamp [OF assms(2)] by blast
    then show ?thesis
      using c out True s by auto
  next
    case False
    then have "data ?r = None \<and> (\<exists>m. error ?r = Some m)"
      using result_shape [of e c name arguments] by simp
    then show ?thesis
      using c out False by auto
  qed
qed

theorem envelope_invariant_witness:
  "steady_clock double_env
   \<and> isoformat (utcnow double_env) = ''2024-02-29T07:05:09.001450''
   \<and> (\<exists>c r. Some double_client = Some c
        \<and> r = call_tool_result double_env c ''validate_access_token'' Map.empty
        \<and> wrap (call_tool_result double_env double_client ''validate_access_token'' Map.empty)
            = wrap r
        \<and> (if success r
           then (\<exists>kvs. data r = Some (PDict kvs)) \<and> error r = None
              \<and> (\<exists>ts t. metadata r =
                     Some [(''tool'', PStr ''validate_access_token''), (''timestamp'', PStr ts)]
                     \<and> parse_iso ts = Some t \<and> dt_le (call_start double_env) t)
           else data r = None \<and> (\<exists>m. error r = Some m)))"
proof -
  have i: "isoformat (utcnow double_env) = ''2024-02-29T07:05:09.001450''"
    by (simp add: utcnow_def double_env_fields stub_clock_def isoformat_def pad2_def pad4_def
        pad6_def digit_char_def char_of_eq_iff)
  show ?thesis
    using steady_double_env i
      envelope_invariant [OF handle_call_tool_ready [OF double_env_ready] steady_double_env,
        of "''validate_access_token''" Map.empty]
    by simp
qed

section \<open>The resource reader\<close>

subsection \<open>A written string reads back\<close>

lemma hex_val_hex_char: "k < 16 \<Longrightarrow> hex_val (hex_char k) = Some k"
  by (auto simp: hex_val_def hex_char_def Let_def)

lemma hex4_byte:
  assumes "n < 256"
  shows "hex4 (CHR ''0'') (CHR ''0'') (hex_char (n div 16)) (hex_char (n mod 16))
           = Some (char_of n)"
proof -
  have a: "n div 16 < 16"
    using assms by simp
  have z: "hex_val (CHR ''0'') = Some 0"
    by (simp add: hex_val_def)
  show ?thesis
    using assms by (simp add: hex4_def z hex_val_hex_char [OF a] hex_val_hex_char)
qed

lemma char_eq_code: "(of_char c :: nat) = of_char d \<Longrightarrow> c = d"
  by simp

text \<open>The reader undoes the escape of one character, whichever of the nine forms it took.\<close>

lemma json_chars_escape:
  "json_chars (json_escape_char c @ t) = cons_char c (json_chars t)"
proof -
  let ?n = "of_char c :: nat"
  have lt: "?n < 256"
    by simp
  consider "?n = 0x22" | "?n = 0x5C" | "?n = 0x0A" | "?n = 0x0D" | "?n = 0x09" | "?n = 0x08"
    | "?n = 0x0C"
    | "?n \<noteq> 0x22" "?n \<noteq> 0x5C" "0x20 \<le> ?n" "?n \<le> 0x7E"
    | "?n \<noteq> 0x0A" "?n \<noteq> 0x0D" "?n \<noteq> 0x09" "?n \<noteq> 0x08" "?n \<noteq> 0x0C"
      "?n < 0x20 \<or> 0x7E < ?n"
    by linarith
  then show ?thesis
  proof cases
    case 1
    then have "c = CHR 0x22" by (intro char_eq_code) simp
    then show ?thesis by (simp add: json_escape_char_def unescape_def)
  next
    case 2
    then have "c = CHR 0x5C" by (intro char_eq_code) simp
    then show ?thesis by (simp add: json_escape_char_def unescape_def)
  next
    case 3
    then have "c = CHR 0x0A" by (intro char_eq_code) simp
    then show ?thesis by (simp add: json_escape_char_def unescape_def)
  next
    case 4
    then have "c = CHR 0x0D" by (intro char_eq_code) simp
    then show ?thesis by (simp add: json_escape_char_def unescape_def)
  next
    case 5
    then have "c = CHR 0x09" by (intro char_eq_code) simp
    then show ?thesis by (simp add: json_escape_char_def unescape_def)
  next
    case 6
    then have "c = CHR 0x08" by (intro char_eq_code) simp
    then show ?thesis by (simp add: json_escape_char_def unescape_def)
  next
    case 7
    then have "c = CHR 0x0C" by (intro char_eq_code) simp
    then show ?thesis by (simp add: json_escape_char_def unescape_def)
  next
    case 8
    then have "c \<noteq> CHR 0x22" "c \<noteq> CHR 0x5C" by auto
    then show ?thesis using 8 by (simp add: json_escape_char_def Let_def)
  next
    case 9
    then have e: "json_escape_char c =
        [CHR 0x5C, CHR ''u'', CHR ''0'', CHR ''0'', hex_char (?n div 16), hex_char (?n mod 16)]"
      by (auto simp: json_escape_char_def Let_def)
    show ?thesis
      by (simp add: e hex4_byte [OF lt])
  qed
qed

lemma json_chars_escaped:
  "json_chars (concat (map json_escape_char s) @ CHR 0x22 # rest) = Some (s, rest)"
  by (induction s) (simp_all add: json_chars_escape cons_char_def)

lemma json_string_at_json_string:
  "json_string_at (json_string s @ rest) = Some (s, rest)"
  by (simp add: json_string_at_def json_string_def json_ws_def json_chars_escaped)

lemma render_error_object:
  "json_render 0 (PDict [(''error'', PStr m)]) =
     [CHR ''{'', CHR 0x0A] @ ''  '' @ json_string ''error'' @ '': '' @ json_string m
     @ [CHR 0x0A, CHR ''}'']"
  by (simp add: indent_of_def numeral_2_eq_2)

text \<open>The text of the \<^verbatim>\<open>except\<close> clause is an object whose one member is \<^verbatim>\<open>error\<close>, with the message.\<close>

lemma parse_error_object:
  "parse_single_member (json_render 0 (PDict [(''error'', PStr m)])) = Some (''error'', m)"
proof -
  let ?tail = "json_string m @ [CHR 0x0A, CHR ''}'']"
  have 1: "expect (CHR ''{'')
             ([CHR ''{'', CHR 0x0A] @ ''  '' @ json_string ''error'' @ '': '' @ ?tail)
           = Some ([CHR 0x0A] @ ''  '' @ json_string ''error'' @ '': '' @ ?tail)"
    by (simp add: expect_def json_ws_def)
  have 2: "json_string_at ([CHR 0x0A] @ ''  '' @ json_string ''error'' @ '': '' @ ?tail)
           = Some (''error'', '': '' @ ?tail)"
  proof -
    have "json_string_at ([CHR 0x0A] @ ''  '' @ json_string ''error'' @ '': '' @ ?tail)
            = json_string_at (json_string ''error'' @ '': '' @ ?tail)"
      by (simp add: json_string_at_def json_ws_def)
    then show ?thesis by (simp only: json_string_at_json_string)
  qed
  have 3: "expect (CHR '':'') ('': '' @ ?tail) = Some ('' '' @ ?tail)"
    by (simp add: expect_def json_ws_def)
  have 4: "json_string_at ('' '' @ ?tail) = Some (m, [CHR 0x0A, CHR ''}''])"
  proof -
    have "json_string_at ('' '' @ ?tail) = json_string_at ?tail"
      by (simp add: json_string_at_def json_ws_def)
    then show ?thesis by (simp only: json_string_at_json_string)
  qed
  have 5: "expect (CHR ''}'') [CHR 0x0A, CHR ''}''] = Some []"
    by (simp add: expect_def json_ws_def)
  show ?thesis
    unfolding render_error_object parse_single_member_def
    by (simp only: 1 2 3 4 5 option.case prod.case dropWhile.simps) simp
qed

lemma error_text_value:
  "error_text x = Inr (json_render 0 (PDict [(''error'', PStr (exn_str x))]))"
  by (simp add: error_text_def json_dumps_def)

subsection \<open>Reading a resource\<close>

lemma handle_read_resource_ready:
  "get_client e st = Inr c \<Longrightarrow>
   handle_read_resource e st uri =
     (Some c, fst (read_resource_body c uri),
      case snd (read_resource_body c uri) of Inl x \<Rightarrow> error_text x | Inr t \<Rightarrow> Inr t)"
  by (simp add: handle_read_resource_def)

lemma body_unknown_uri:
  "uri \<notin> set resource_uris \<Longrightarrow>
   read_resource_body c uri =
     ([], Inl (PyException ''ValueError'' (''Unknown resource URI: '' @ uri)))"
  by (simp add: read_resource_body_def resource_uris_def)

text \<open>
  Claim C7, as stated, fails: the reader too obtains the handle before its \<^verbatim>\<open>try\<close>
  statement, so when no client has been built yet and \<^verbatim>\<open>InstagramClient()\<close> raises, it
  raises to its caller instead of returning a text.
\<close>

theorem read_resource_counterexample:
  "handle_read_resource broken_env None ''instagram://pages'' =
     (None, [], Inl (PyException ''ValidationError'' ''instagram_access_token: field required''))"
  by (simp add: handle_read_resource_def get_client_def broken_env_def)

text \<open>
  Claim C7, amended.  For every URI and every outcome of the client's operations, a
  read that holds the client handle returns a text and does not raise.  When the
  guarded block fails, the text reads as a JSON object with the single key \<^verbatim>\<open>error\<close>,
  whose value is the message of the failure; for a URI that is not one of the four
  resources the message is \<^verbatim>\<open>Unknown resource URI: \<close> followed by the URI.
\<close>

theorem read_resource_text:
  assumes "get_client e st = Inr c"
  shows "\<exists>t. handle_read_resource e st uri = (Some c, fst (read_resource_body c uri), Inr t)
     \<and> (case snd (read_resource_body c uri) of
          Inl x \<Rightarrow> parse_single_member t = Some (''error'', exn_str x)
        | Inr t' \<Rightarrow> t = t')
     \<and> (uri \<notin> set resource_uris \<longrightarrow>
          parse_single_member t = Some (''error'', ''Unknown resource URI: '' @ uri))"
proof (cases "snd (read_resource_body c uri)")
  case (Inl x)
  have "uri \<notin> set resource_uris \<Longrightarrow> exn_str x = ''Unknown resource URI: '' @ uri"
    using Inl by (auto simp: body_unknown_uri)
  then show ?thesis
    using assms Inl
    by (auto simp: handle_read_resource_ready error_text_value parse_error_object
        simp del: json_render.simps)
next
  case (Inr t)
  then show ?thesis
    using assms by (auto simp: handle_read_resource_ready body_unknown_uri)
qed

theorem read_resource_text_witness:
  "(\<exists>t. handle_read_resource double_env (Some failing_client) ''instagram://pages'' =
          (Some failing_client, [ApiCall GetAccountPages], Inr t)
        \<and> parse_single_member t = Some (''error'', ''Invalid OAuth access token''))
   \<and> (\<exists>t. handle_read_resource double_env None ''platform://pages'' =
          (Some double_client, [], Inr t)
        \<and> parse_single_member t = Some (''error'', ''Unknown resource URI: platform://pages''))"
proof -
  have b: "read_resource_body failing_client ''instagram://pages'' =
     ([ApiCall GetAccountPages], Inl upstream_error)"
    by (simp add: read_resource_body_def failing_client_def)
  have s: "exn_str upstream_error = ''Invalid OAuth access token''"
    by (simp add: upstream_error_def)
  have u: "''platform://pages'' \<notin> set resource_uris"
    by (simp add: resource_uris_def)
  have b2: "read_resource_body double_client ''platform://pages'' =
     ([], Inl (PyException ''ValueError'' ''Unknown resource URI: platform://pages''))"
    by (simp add: read_resource_body_def)
  show ?thesis
    using read_resource_text [OF get_client_Some, of double_env failing_client
        "''instagram://pages''"]
      read_resource_text [OF double_env_ready, of "''platform://pages''"] u
    by (auto simp: b b2 s)
qed

section \<open>The hashtag prompt\<close>

subsection \<open>Reading the post count\<close>

lemma py_int_10: "py_int e ''10'' = Inr 10"
  by (simp add: py_int_def c_strip_def c_isspace_def to_ascii_def is_digit_def digit_val_def
      over_digit_limit_def Let_def)

lemma dec_nat_digits: "dec_nat k \<noteq> [] \<and> list_all is_digit (dec_nat k)"
proof (induction k rule: dec_nat.induct)
  case (1 n)
  show ?case
  proof (cases "n < 10")
    case True
    then show ?thesis by (simp add: dec_nat.simps [of n] is_digit_digit_char)
  next
    case False
    then have "n mod 10 < 10" by simp
    then show ?thesis
      using False 1 by (simp add: dec_nat.simps [of n] is_digit_digit_char)
  qed
qed

lemma horner_dec_nat: "horner 0 (dec_nat k) = k"
proof (induction k rule: dec_nat.induct)
  case (1 n)
  show ?case
  proof (cases "n < 10")
    case True
    then show ?thesis by (simp add: dec_nat.simps [of n] horner_def digit_val_digit_char)
  next
    case False
    have m: "n mod 10 < 10" by simp
    have "horner 0 (dec_nat n) =
        10 * horner 0 (dec_nat (n div 10)) + digit_val (digit_char (n mod 10))"
      using False by (simp add: dec_nat.simps [of n] horner_def)
    then show ?thesis
      using False 1 by (simp add: digit_val_digit_char [OF m])
  qed
qed

lemma digits_value_digits:
  "list_all is_digit ds \<Longrightarrow> ds \<noteq> [] \<or> b \<Longrightarrow> digits_value acc b ds = Some (horner acc ds)"
  by (induction ds arbitrary: acc b) (auto simp: horner_def)

lemma digit_plain:
  assumes "is_digit c"
  shows "to_ascii c = c" and "\<not> c_isspace c" and "c \<noteq> CHR ''-''" and "c \<noteq> CHR ''+''"
proof -
  have r: "48 \<le> (of_char c :: nat)" "(of_char c :: nat) \<le> 57"
    using assms by (simp_all add: is_digit_def)
  show "to_ascii c = c" using r by (simp add: to_ascii_def)
  show "\<not> c_isspace c" using r by (simp add: c_isspace_def)
  show "c \<noteq> CHR ''-''" using r by auto
  show "c \<noteq> CHR ''+''" using r by auto
qed

lemma minus_plain: "to_ascii (CHR ''-'') = CHR ''-''" "\<not> c_isspace (CHR ''-'')"
  by (simp_all add: to_ascii_def c_isspace_def)

lemma map_to_ascii_digits: "list_all is_digit ds \<Longrightarrow> map to_ascii ds = ds"
  by (induction ds) (simp_all add: digit_plain)

lemma filter_digits: "list_all is_digit ds \<Longrightarrow> filter is_digit ds = ds"
  by (induction ds) simp_all

lemma c_strip_plain:
  assumes "s \<noteq> []" and "\<not> c_isspace (hd s)" and "\<not> c_isspace (last s)"
  shows "c_strip s = s"
proof -
  have a: "dropWhile c_isspace s = s"
    using assms(1,2) by (cases s) simp_all
  obtain xs x where sx: "s = xs @ [x]"
    using assms(1) by (cases s rule: rev_cases) auto
  then have "\<not> c_isspace x"
    using assms(3) by simp
  then have b: "dropWhile c_isspace (rev s) = rev s"
    by (simp add: sx)
  show ?thesis by (simp add: c_strip_def a b)
qed

lemma c_strip_digits:
  assumes "ds \<noteq> []" and "list_all is_digit ds"
  shows "c_strip ds = ds" and "c_strip (CHR ''-'' # ds) = CHR ''-'' # ds"
proof -
  have h: "is_digit (hd ds)" and l: "is_digit (last ds)"
    using assms by (auto simp: list_all_iff)
  show "c_strip ds = ds"
    using assms(1) h l by (intro c_strip_plain) (simp_all add: digit_plain)
  show "c_strip (CHR ''-'' # ds) = CHR ''-'' # ds"
    using assms(1) l by (intro c_strip_plain) (simp_all add: digit_plain minus_plain)
qed

lemma py_int_unsigned:
  assumes "c_strip (map to_ascii s) = c # cs" and "c \<noteq> CHR ''-''" and "c \<noteq> CHR ''+''"
    and "digits_value 0 False (c # cs) = Some k"
    and "\<not> over_digit_limit e (length (filter is_digit (c # cs)))"
  shows "py_int e s = Inr (int k)"
  unfolding py_int_def Let_def assms(1)
  using assms(2,3,5) by (simp only: list.case if_False assms(4) option.case simp_thms)

lemma py_int_negative:
  assumes "c_strip (map to_ascii s) = CHR ''-'' # ds"
    and "digits_value 0 False ds = Some k"
    and "\<not> over_digit_limit e (length (filter is_digit ds))"
  shows "py_int e s = Inr (- int k)"
  unfolding py_int_def Let_def assms(1)
  using assms(3) by (simp only: list.case if_True assms(2) option.case simp_thms if_False)

lemma py_int_dec_nat:
  assumes "length (dec_nat k) \<le> 640"
  shows "py_int e (dec_nat k) = Inr (int k)"
    and "py_int e (CHR ''-'' # dec_nat k) = Inr (- int k)"
proof -
  let ?ds = "dec_nat k"
  have ne: "?ds \<noteq> []" and dg: "list_all is_digit ?ds"
    using dec_nat_digits [of k] by simp_all
  have v: "digits_value 0 False ?ds = Some k"
    using digits_value_digits [OF dg, of False 0] ne by (simp add: horner_dec_nat)
  have f: "filter is_digit ?ds = ?ds"
    by (rule filter_digits [OF dg])
  have lim: "\<not> over_digit_limit e (length (filter is_digit ?ds))"
    using assms by (simp add: over_digit_limit_def f)
  obtain c cs where cs: "?ds = c # cs"
    using ne by (cases ?ds) auto
  then have "is_digit c"
    using dg by simp
  then have c: "c \<noteq> CHR ''-''" "c \<noteq> CHR ''+''"
    using digit_plain(3,4) by simp_all
  have "c_strip (map to_ascii ?ds) = ?ds"
    by (simp only: map_to_ascii_digits [OF dg] c_strip_digits(1) [OF ne dg])
  then have t1: "c_strip (map to_ascii ?ds) = c # cs"
    by (simp only: cs)
  have t2: "c_strip (map to_ascii (CHR ''-'' # ?ds)) = CHR ''-'' # ?ds"
    by (simp add: minus_plain map_to_ascii_digits [OF dg] c_strip_digits(2) [OF ne dg])
  have v': "digits_value 0 False (c # cs) = Some k"
    using v cs by simp
  have lim': "\<not> over_digit_limit e (length (filter is_digit (c # cs)))"
    using lim cs by simp
  show "py_int e (dec_nat k) = Inr (int k)"
    by (rule py_int_unsigned [OF t1 c v' lim'])
  show "py_int e (CHR ''-'' # dec_nat k) = Inr (- int k)"
    by (rule py_int_negative [OF t2 v lim])
qed

text \<open>Reading what \<^verbatim>\<open>str\<close> writes for an integer gives the integer back.\<close>

lemma py_int_py_str_int:
  assumes "length (py_str_int i) \<le> 640"
  shows "py_int e (py_str_int i) = Inr i"
proof (cases "i < 0")
  case True
  then show ?thesis
    using assms py_int_dec_nat(2) [of "nat (- i)" e] by (simp add: py_str_int_def)
next
  case False
  then show ?thesis
    using assms py_int_dec_nat(1) [of "nat i" e] by (simp add: py_str_int_def)
qed

text \<open>
  Literals beside the plain ones: surrounding whitespace, a sign, an underscore, a
  leading zero and the no-break space are read; a unit separator is not whitespace to
  \<^verbatim>\<open>int\<close> (it is to \<^verbatim>\<open>split\<close>), and a literal of 4301 digits is over the usual limit.
\<close>

lemma py_int_examples:
  "py_int e '' 12 '' = Inr 12"
  "py_int e ''+1_000'' = Inr 1000"
  "py_int e ''-07'' = Inr (- 7)"
  "py_int e [CHR 0xA0, CHR ''5''] = Inr 5"
  by (simp_all add: py_int_def c_strip_def c_isspace_def to_ascii_def is_digit_def digit_val_def
      over_digit_limit_def Let_def)

lemma py_int_refused:
  "py_int e [CHR 0x1F, CHR ''1'', CHR ''2''] =
     Inl (PyException ''ValueError'' (int_error_text e [CHR 0x1F, CHR ''1'', CHR ''2'']))"
  "py_int e ''1__0'' = Inl (PyException ''ValueError'' (int_error_text e ''1__0''))"
  "py_int e [] = Inl (PyException ''ValueError'' (int_error_text e []))"
  by (simp_all add: py_int_def c_strip_def c_isspace_def to_ascii_def is_digit_def digit_val_def
      Let_def)

lemma py_int_over_limit:
  "py_int double_env (replicate 4301 (CHR ''1'')) =
     Inl (PyException ''ValueError'' (int_error_text double_env (replicate 4301 (CHR ''1''))))"
proof -
  let ?s = "replicate 4301 (CHR ''1'')"
  have d: "is_digit (CHR ''1'')"
    by (simp add: is_digit_def)
  have dg: "list_all is_digit ?s"
    using d by (simp add: list_all_iff)
  have ne: "?s \<noteq> []"
    by simp
  have t: "c_strip (map to_ascii ?s) = ?s"
    by (simp only: map_to_ascii_digits [OF dg] c_strip_digits(1) [OF ne dg])
  have s: "?s = CHR ''1'' # replicate 4300 (CHR ''1'')"
    by (simp add: replicate_Suc [symmetric] del: replicate_Suc)
  have v: "digits_value 0 False ?s = Some (horner 0 ?s)"
    using digits_value_digits [OF dg, of False 0] by simp
  have f: "length (filter is_digit ?s) = 4301"
    by (simp add: filter_digits [OF dg])
  have o: "over_digit_limit double_env 4301"
    by (simp add: over_digit_limit_def double_env_def)
  have b: "(case ?s of [] \<Rightarrow> [] | c # cs \<Rightarrow> if c = CHR ''-'' \<or> c = CHR ''+'' then cs else ?s) = ?s"
    by (subst (1) s) simp
  show ?thesis
    unfolding py_int_def Let_def t b
    by (simp only: v option.case f o if_True)
qed

subsection \<open>The entries\<close>

text \<open>
  The words \<^verbatim>\<open>split\<close> gives are not empty and hold no whitespace, and together they are
  the text without its whitespace.
\<close>

lemma split_from_tokens:
  "x \<in> set (split_from w s) \<Longrightarrow> \<forall>c\<in>set w. \<not> py_isspace c \<Longrightarrow>
   x \<noteq> [] \<and> (\<forall>c\<in>set x. \<not> py_isspace c)"
proof (induction s arbitrary: w)
  case Nil
  then show ?case by (auto split: if_splits)
next
  case (Cons c cs)
  show ?case
  proof (cases "py_isspace c")
    case True
    then show ?thesis
      using Cons.prems Cons.IH [of "[]"] by (auto split: if_splits)
  next
    case False
    then show ?thesis
      using Cons.prems Cons.IH [of "w @ [c]"] by auto
  qed
qed

lemma py_split_tokens:
  "x \<in> set (py_split s) \<Longrightarrow> x \<noteq> [] \<and> (\<forall>c\<in>set x. \<not> py_isspace c)"
  using split_from_tokens [of x "[]" s] by (simp add: py_split_def)

lemma split_from_concat:
  "concat (split_from w s) = w @ filter (\<lambda>c. \<not> py_isspace c) s"
  by (induction s arbitrary: w) auto

lemma py_split_concat: "concat (py_split s) = filter (\<lambda>c. \<not> py_isspace c) s"
  by (simp add: py_split_def split_from_concat)

text \<open>The loop of the source builds what the words of the spec describe.\<close>

lemma hashtags_data_filter:
  "hashtags_data posts = map (\<lambda>p. hashtag_entry p (caption_text p)) (filter has_caption posts)"
  by (induction posts) (auto simp: has_caption_def caption_text_def split: option.splits)

lemma unserializable_strs: "concat (map unserializable (map PStr ws)) = []"
  by (induction ws) simp_all

lemma unserializable_entry: "unserializable (hashtag_entry p cap) = []"
  by (simp add: hashtag_entry_def opt_int_def unserializable_strs split: option.splits)

lemma unserializable_entries:
  "unserializable (PList (map (\<lambda>p. hashtag_entry p (f p)) ps)) = []"
  by (induction ps) (simp_all add: unserializable_entry)

lemma json_dumps_hashtags:
  "json_dumps (PList (hashtags_data posts)) = Inr (json_render 0 (PList (hashtags_data posts)))"
proof -
  have "unserializable (PList (hashtags_data posts)) = []"
    by (simp only: hashtags_data_filter unserializable_entries)
  then show ?thesis
    by (simp add: json_dumps_def del: unserializable.simps json_render.simps)
qed

lemma handle_get_prompt_ready:
  "get_client e st = Inr c \<Longrightarrow>
   handle_get_prompt e st name arguments =
     (Some c, fst (get_prompt_body e c name arguments),
      case snd (get_prompt_body e c name arguments) of
        Inl x \<Rightarrow> Inr (''Error generating prompt: '' @ exn_str x)
      | Inr t \<Rightarrow> Inr t)"
  by (simp add: handle_get_prompt_def)

lemma prompt_post_count_refused:
  assumes "get_client e st = Inr c" and "arguments ''post_count'' = Some v"
    and "py_int e v = Inl x"
  shows "handle_get_prompt e st ''hashtag_analysis'' arguments =
    (Some c, [], Inr (''Error generating prompt: '' @ exn_str x))"
  using assms by (simp add: handle_get_prompt_ready get_prompt_body_def)

lemma py_str_int_3: "py_str_int 3 = ''3''"
  by (simp add: py_str_int_def dec_nat.simps digit_char_def char_of_eq_iff)

text \<open>
  Claim C8.  For the \<^verbatim>\<open>hashtag_analysis\<close> prompt, the number of posts asked for is 10
  when \<^verbatim>\<open>post_count\<close> is absent, and the integer \<open>n\<close> when \<^verbatim>\<open>post_count\<close> is the string
  that writes \<open>n\<close> in decimal (a numeral of at most 640 characters, which no digit limit
  of the interpreter refuses): the string is parsed to an integer.  When the client
  returns the posts, the prompt is the template around the rendered data, and the data
  has, in the order of the posts, exactly one entry for each post that has a caption (a
  post whose caption is missing or empty has none): the entry lists the post's id, the
  words of the caption that begin with \<^verbatim>\<open>#\<close>, and the post's like count and comment
  count as they are.
\<close>

theorem hashtag_analysis_entries:
  assumes "get_client e st = Inr c"
    and "arguments ''post_count'' = None \<and> n = 10
         \<or> arguments ''post_count'' = Some (py_str_int n) \<and> length (py_str_int n) \<le> 640"
    and "get_media_posts c None (Some (PInt n)) None = Inr posts"
  shows "handle_get_prompt e st ''hashtag_analysis'' arguments =
         (Some c, [ApiCall (GetMediaPosts None (Some (PInt n)) None)],
          Inr (hashtag_prompt n
                 (json_render 0
                    (PList (map (\<lambda>p. hashtag_entry p (caption_text p))
                              (filter has_caption posts))))))"
proof -
  have p: "py_int e (case arguments ''post_count'' of None \<Rightarrow> ''10'' | Some v \<Rightarrow> v) = Inr n"
    using assms(2) by (auto simp: py_int_10 py_int_py_str_int)
  have b: "get_prompt_body e c ''hashtag_analysis'' arguments =
      ([ApiCall (GetMediaPosts None (Some (PInt n)) None)],
       Inr (hashtag_prompt n (json_render 0 (PList (hashtags_data posts)))))"
    using p assms(3)
    by (simp add: get_prompt_body_def json_dumps_hashtags del: json_render.simps)
  show ?thesis
    using assms(1)
    by (simp add: handle_get_prompt_ready b hashtags_data_filter del: json_render.simps)
qed

theorem hashtag_analysis_entries_witness:
  "handle_get_prompt double_env None ''hashtag_analysis'' Map.empty =
     (Some double_client, [ApiCall (GetMediaPosts None (Some (PInt 10)) None)],
      Inr (hashtag_prompt 10
            (json_render 0
               (PList
                  [PDict [(''post_id'', PStr ''p1''),
                          (''hashtags'', PList [PStr ''#tag1'', PStr ''#tag2'']),
                          (''likes'', PInt 12), (''comments'', PInt 3)],
                   PDict [(''post_id'', PStr ''p3''),
                          (''hashtags'', PList [PStr ''#tag1'', PStr ''#tag2'']),
                          (''likes'', PInt 40), (''comments'', PNone)]]))))
   \<and> handle_get_prompt double_env None ''hashtag_analysis'' three_posts =
     (Some double_client, [ApiCall (GetMediaPosts None (Some (PInt 3)) None)],
      Inr (hashtag_prompt 3
            (json_render 0
               (PList
                  [PDict [(''post_id'', PStr ''p1''),
                          (''hashtags'', PList [PStr ''#tag1'', PStr ''#tag2'']),
                          (''likes'', PInt 12), (''comments'', PInt 3)],
                   PDict [(''post_id'', PStr ''p3''),
                          (''hashtags'', PList [PStr ''#tag1'', PStr ''#tag2'']),
                          (''likes'', PInt 40), (''comments'', PNone)]]))))"
proof -
  have a: "Map.empty ''post_count'' = (None :: string option) \<and> (10 :: int) = 10
      \<or> Map.empty ''post_count'' = Some (py_str_int 10) \<and> length (py_str_int 10) \<le> 640"
    by simp
  have b: "three_posts ''post_count'' = None \<and> (3 :: int) = 10
      \<or> three_posts ''post_count'' = Some (py_str_int 3) \<and> length (py_str_int 3) \<le> 640"
    by (simp add: three_posts_def py_str_int_3)
  have p: "get_media_posts double_client None (Some (PInt k)) None = Inr stub_posts" for k
    by (simp add: double_client_def)
  have f: "map (\<lambda>p. hashtag_entry p (caption_text p)) (filter has_caption stub_posts) =
      [PDict [(''post_id'', PStr ''p1''),
              (''hashtags'', PList [PStr ''#tag1'', PStr ''#tag2'']),
              (''likes'', PInt 12), (''comments'', PInt 3)],
       PDict [(''post_id'', PStr ''p3''),
              (''hashtags'', PList [PStr ''#tag1'', PStr ''#tag2'']),
              (''likes'', PInt 40), (''comments'', PNone)]]"
    by (simp add: stub_posts_def has_caption_def caption_text_def hashtag_entry_def opt_int_def
        py_split_def py_isspace_def startswith_hash_def)
  show ?thesis
    using hashtag_analysis_entries [where arguments = Map.empty and n = 10,
        OF double_env_ready a p [of 10]]
      hashtag_analysis_entries [where arguments = three_posts and n = 3,
        OF double_env_ready b p [of 3]]
    by (simp only: f)
qed

end
